theory Spec2Isabelle
  imports Complex_Main
begin

section \<open>JavaScript values\<close>

text \<open>
  The library is JavaScript; its arguments are arbitrary runtime values. The model covers
  the plain data values (what a JSON document or a literal can denote, plus
  \<open>undefined\<close>, \<open>NaN\<close> and the infinities) and functions. An array, an object and a
  function carry the address of the heap cell they live in, because \<open>===\<close> on them
  compares identity, not contents. An object and a function hold their own data
  properties; what they inherit from their prototype chain is the host's (below).
  An array is dense: it has no holes. Accessors on the values themselves, boxed
  primitives, symbols and exotic objects are outside the model.

  A number is an IEEE double. Every finite double is a rational, and the comparisons the
  library performs on numbers are exact on the represented values, so a finite number is
  modelled by the rational it denotes; \<open>NaN\<close> and the two infinities are separate values.
\<close>

datatype jsnum = Finite rat | NaN | PosInfinity | NegInfinity

datatype jsval =
    JUndefined
  | JNull
  | JBool bool
  | JNum jsnum
  | JStr string
  | JArr nat "jsval list"
  | JObj nat "(string \<times> jsval) list"
  | JFun nat "(string \<times> jsval) list"

abbreviation num :: "rat \<Rightarrow> jsval" where
  "num q \<equiv> JNum (Finite q)"

text \<open>The relational operators on numbers: every comparison with \<open>NaN\<close> is false.\<close>

fun num_lt :: "jsnum \<Rightarrow> jsnum \<Rightarrow> bool" where
  "num_lt NaN _ = False"
| "num_lt _ NaN = False"
| "num_lt (Finite x) (Finite y) = (x < y)"
| "num_lt (Finite _) PosInfinity = True"
| "num_lt (Finite _) NegInfinity = False"
| "num_lt PosInfinity _ = False"
| "num_lt NegInfinity NegInfinity = False"
| "num_lt NegInfinity _ = True"

definition num_le :: "jsnum \<Rightarrow> jsnum \<Rightarrow> bool" where
  "num_le a b = (a \<noteq> NaN \<and> b \<noteq> NaN \<and> \<not> num_lt b a)"

definition num_eq :: "jsnum \<Rightarrow> jsnum \<Rightarrow> bool" where
  "num_eq a b = (a \<noteq> NaN \<and> a = b)"

text \<open>
  Division by a positive finite constant (the library only divides by 1000). The quotient
  is exact here; the rounding of the double quotient only shows in the rendered text.
\<close>

fun num_div :: "jsnum \<Rightarrow> rat \<Rightarrow> jsnum" where
  "num_div (Finite x) d = Finite (x / d)"
| "num_div n d = n"

subsection \<open>Errors and the host\<close>

text \<open>
  The library raises a \<open>TypeError\<close> or a \<open>RangeError\<close>. A call into the host can raise
  an error of any kind: \<open>HostError name message\<close> is one of another kind, such as the
  \<open>JSONError\<close> of \<open>pm.response.json()\<close> on a body that is not JSON.
\<close>

datatype error = TypeError string | RangeError string | HostError string string

text \<open>
  What the JavaScript engine and the schema validator compute, and the source does not
  define: the decimal rendering of a number, the numeric value of a string, the source
  text a function converts to, the members a value inherits from its prototype chain
  (\<open>inherited h kind name\<close> for a value of that kind, \<open>None\<close> when the chain has no such
  member: \<open>Object.prototype\<close> for an object, \<open>Array.prototype\<close> and then
  \<open>Object.prototype\<close> for an array, and so on), and \<open>tv4.validate\<close>, which returns its
  verdict (valid, or the error's message and data path) or throws. Every theorem below
  holds for every host.
\<close>

datatype tv4_result = TvValid | TvInvalid string string

record host =
  NumberToString :: "jsnum \<Rightarrow> string"
  StringToNumber :: "string \<Rightarrow> jsnum"
  FunctionToString :: "nat \<Rightarrow> string"
  inherited :: "string \<Rightarrow> string \<Rightarrow> jsval option"
  tv4_validate :: "jsval \<Rightarrow> jsval \<Rightarrow> error + tv4_result"

subsection \<open>Conversions and kinds\<close>

fun join_comma :: "string list \<Rightarrow> string" where
  "join_comma [] = []"
| "join_comma [x] = x"
| "join_comma (x # y # ys) = x @ '','' @ join_comma (y # ys)"

text \<open>
  String conversion, as string concatenation and template literals apply it. An array
  joins its elements with commas (\<open>null\<close> and \<open>undefined\<close> elements render empty), a plain
  object is \<open>[object Object]\<close>, a function is its source text.
\<close>

fun ToString :: "host \<Rightarrow> jsval \<Rightarrow> string" where
  "ToString h JUndefined = ''undefined''"
| "ToString h JNull = ''null''"
| "ToString h (JBool b) = (if b then ''true'' else ''false'')"
| "ToString h (JNum n) = NumberToString h n"
| "ToString h (JStr s) = s"
| "ToString h (JArr a xs) =
     join_comma (map (\<lambda>x. if x = JUndefined \<or> x = JNull then [] else ToString h x) xs)"
| "ToString h (JObj a fs) = ''[object Object]''"
| "ToString h (JFun a fs) = FunctionToString h a"

text \<open>
  Numeric conversion, as the relational operators apply it when the other operand is a
  number. An array, a plain object or a function is first converted to its string.
\<close>

fun ToNumber :: "host \<Rightarrow> jsval \<Rightarrow> jsnum" where
  "ToNumber h JUndefined = NaN"
| "ToNumber h JNull = Finite 0"
| "ToNumber h (JBool b) = Finite (if b then 1 else 0)"
| "ToNumber h (JNum n) = n"
| "ToNumber h (JStr s) = StringToNumber h s"
| "ToNumber h v = StringToNumber h (ToString h v)"

text \<open>
  The operators \<open><=\<close>, \<open>>\<close> and \<open>>=\<close> of the source. In every use one operand is a
  number literal, so both operands are converted to numbers.
\<close>

definition js_le :: "host \<Rightarrow> jsval \<Rightarrow> jsval \<Rightarrow> bool" where
  "js_le h a b = num_le (ToNumber h a) (ToNumber h b)"

definition js_gt :: "host \<Rightarrow> jsval \<Rightarrow> jsval \<Rightarrow> bool" where
  "js_gt h a b = num_lt (ToNumber h b) (ToNumber h a)"

definition js_ge :: "host \<Rightarrow> jsval \<Rightarrow> jsval \<Rightarrow> bool" where
  "js_ge h a b = num_le (ToNumber h b) (ToNumber h a)"

text \<open>
  \<open>===\<close>: by value on primitives (\<open>NaN\<close> differs from itself), by identity on arrays,
  objects and functions.
\<close>

fun strict_eq :: "jsval \<Rightarrow> jsval \<Rightarrow> bool" where
  "strict_eq JUndefined JUndefined = True"
| "strict_eq JNull JNull = True"
| "strict_eq (JBool a) (JBool b) = (a = b)"
| "strict_eq (JNum a) (JNum b) = num_eq a b"
| "strict_eq (JStr a) (JStr b) = (a = b)"
| "strict_eq (JArr a _) (JArr b _) = (a = b)"
| "strict_eq (JObj a _) (JObj b _) = (a = b)"
| "strict_eq (JFun a _) (JFun b _) = (a = b)"
| "strict_eq _ _ = False"

text \<open>\<open>n != v\<close> for a number \<open>n\<close>: \<open>null\<close> and \<open>undefined\<close> never equal a number, anything else is compared as a number.\<close>

fun number_ne :: "host \<Rightarrow> jsnum \<Rightarrow> jsval \<Rightarrow> bool" where
  "number_ne h n JUndefined = True"
| "number_ne h n JNull = True"
| "number_ne h n v = (\<not> num_eq n (ToNumber h v))"

text \<open>Truthiness, as \<open>&&\<close> and the conditional operator test it.\<close>

fun truthy :: "jsval \<Rightarrow> bool" where
  "truthy JUndefined = False"
| "truthy JNull = False"
| "truthy (JBool b) = b"
| "truthy (JNum n) = (n \<noteq> NaN \<and> n \<noteq> Finite 0)"
| "truthy (JStr s) = (s \<noteq> [])"
| "truthy (JArr _ _) = True"
| "truthy (JObj _ _) = True"
| "truthy (JFun _ _) = True"

fun typeof :: "jsval \<Rightarrow> string" where
  "typeof JUndefined = ''undefined''"
| "typeof JNull = ''object''"
| "typeof (JBool _) = ''boolean''"
| "typeof (JNum _) = ''number''"
| "typeof (JStr _) = ''string''"
| "typeof (JArr _ _) = ''object''"
| "typeof (JObj _ _) = ''object''"
| "typeof (JFun _ _) = ''function''"

text \<open>
  \<open>getType\<close> (part_000): \<open>Object.prototype.toString.call(value)\<close> with the
  \<open>[object \<close> prefix and the closing bracket removed.
\<close>

fun getType :: "jsval \<Rightarrow> string" where
  "getType JUndefined = ''Undefined''"
| "getType JNull = ''Null''"
| "getType (JBool _) = ''Boolean''"
| "getType (JNum _) = ''Number''"
| "getType (JStr _) = ''String''"
| "getType (JArr _ _) = ''Array''"
| "getType (JObj _ _) = ''Object''"
| "getType (JFun _ _) = ''Function''"

section \<open>The response and the test runner\<close>

text \<open>
  The response is the host's: the library only reads it. \<open>json\<close> is what
  \<open>pm.response.json()\<close> does: it returns the parsed body, or throws when the body is not
  JSON. \<open>body\<close> is the value of \<open>response.body\<close> that the callbacks of
  src/Commontests.js read, \<open>body_text\<close> the raw body (\<open>responseBody\<close>,
  \<open>pm.response.text()\<close>).
\<close>

record response =
  code :: int
  responseTime :: rat
  content_type :: string
  headers :: "string \<Rightarrow> string option"
  body_text :: string
  body :: jsval
  json :: "error + jsval"

text \<open>
  A test is registered with \<open>it(description, callback)\<close> or \<open>pm.test(description,
  callback)\<close>. The callback is kept as the list of assertion-library calls it makes, in
  order; the runner runs it and records a failure when one of them throws.
\<close>

datatype assertion =
    HaveStatus jsval
  | TypeEqual jsval
  | TimeBelow jsval
  | BodyHaveSchema jsval
  | HaveHeader string
  | HaveHeaderValue string jsval
  | HeaderInclude string jsval
  | ExpectTrue bool

record test =
  description :: string
  callback :: "assertion list"

text \<open>
  The runner's state: the tests registered so far, in order, and how many times
  \<open>postman.setNextRequest(null)\<close> was called.
\<close>

record runner =
  tests :: "test list"
  nextRequestNull :: nat

type_synonym outcome = "(error + unit) \<times> runner"

definition it :: "string \<Rightarrow> assertion list \<Rightarrow> runner \<Rightarrow> outcome" where
  "it d c st = (Inr (), st\<lparr>tests := tests st @ [\<lparr>description = d, callback = c\<rparr>]\<rparr>)"

definition pm_test :: "string \<Rightarrow> assertion list \<Rightarrow> runner \<Rightarrow> outcome" where
  "pm_test d c st = (Inr (), st\<lparr>tests := tests st @ [\<lparr>description = d, callback = c\<rparr>]\<rparr>)"

definition setNextRequest_null :: "runner \<Rightarrow> runner" where
  "setNextRequest_null st = st\<lparr>nextRequestNull := Suc (nextRequestNull st)\<rparr>"

definition throw :: "error \<Rightarrow> runner \<Rightarrow> outcome" where
  "throw e st = (Inl e, st)"

text \<open>
  What the assertion library checks when the runner runs a callback against the
  response: status and header equality, string inclusion, numeric comparison
  (\<open>below\<close> is strict and needs a number), schema conformance by the validator. An
  assertion whose evaluation throws has failed.
\<close>

definition str_includes :: "string \<Rightarrow> string \<Rightarrow> bool" where
  "str_includes s sub = list_ex (\<lambda>k. take (length sub) (drop k s) = sub) [0..<Suc (length s)]"

fun holds :: "host \<Rightarrow> response \<Rightarrow> assertion \<Rightarrow> bool" where
  "holds h r (HaveStatus v) = strict_eq (num (of_int (code r))) v"
| "holds h r (TypeEqual v) = strict_eq (JStr (content_type r)) v"
| "holds h r (TimeBelow v) = (case v of JNum n \<Rightarrow> num_lt (Finite (responseTime r)) n | _ \<Rightarrow> False)"
| "holds h r (BodyHaveSchema v) = (tv4_validate h (body r) v = Inr TvValid)"
| "holds h r (HaveHeader n) = (headers r n \<noteq> None)"
| "holds h r (HaveHeaderValue n v) =
     (case headers r n of None \<Rightarrow> False | Some s \<Rightarrow> strict_eq (JStr s) v)"
| "holds h r (HeaderInclude n v) =
     (case headers r n of None \<Rightarrow> False
      | Some s \<Rightarrow> (case v of JStr sub \<Rightarrow> str_includes s sub | _ \<Rightarrow> False))"
| "holds h r (ExpectTrue b) = b"

section \<open>The library of src/Commontests.js (the looser variant)\<close>

definition convertTime_loose :: "host \<Rightarrow> jsval \<Rightarrow> error + string" where
  \<open>convertTime_loose h time =
     (if typeof time = ''number'' then
        Inr (if js_ge h time (num 1000)
             then ToString h (JNum (num_div (ToNumber h time) 1000)) @ ''s''
             else ToString h time @ ''ms'')
      else Inl (TypeError
        ''Parameter value must be of type "number" for function "convertTime(time)"''))\<close>

definition checkTime_loose :: "host \<Rightarrow> jsval \<Rightarrow> runner \<Rightarrow> outcome" where
  \<open>checkTime_loose h time st =
     (if js_gt h time (num 0) then
        (case convertTime_loose h time of
           Inl e \<Rightarrow> throw e st
         | Inr s \<Rightarrow> it (''should respond within '' @ s) [TimeBelow time] st)
      else throw (RangeError
        ''Parameter value must be a strictly positive number for function "checkTime(time)"'') st)\<close>

definition checkStatusCode_loose :: "host \<Rightarrow> jsval \<Rightarrow> runner \<Rightarrow> outcome" where
  \<open>checkStatusCode_loose h statusCode st =
     (if js_le h (num 100) statusCode \<and> js_le h statusCode (num 199) then
        it ''should be an information response'' [HaveStatus statusCode] st
      else if js_le h (num 200) statusCode \<and> js_le h statusCode (num 299) then
        it ''should be a successful response'' [HaveStatus statusCode] st
      else if js_le h (num 300) statusCode \<and> js_le h statusCode (num 399) then
        it ''should be a redirection response'' [HaveStatus statusCode] st
      else if js_le h (num 400) statusCode \<and> js_le h statusCode (num 499) then
        it ''should be a client error response'' [HaveStatus statusCode] st
      else if js_le h (num 500) statusCode \<and> js_le h statusCode (num 599) then
        it ''should be a server error response'' [HaveStatus statusCode] st
      else throw (RangeError
        ''Parameter value must be an existing status code number for function "checkStatusCode(statusCode)"'') st)\<close>

definition checkContentType_loose :: "host \<Rightarrow> jsval \<Rightarrow> runner \<Rightarrow> outcome" where
  \<open>checkContentType_loose h contentType st =
     it (''should be of type "'' @ ToString h contentType @ ''"'') [TypeEqual contentType] st\<close>

definition checkJSONSchema_loose :: "jsval \<Rightarrow> runner \<Rightarrow> outcome" where
  \<open>checkJSONSchema_loose jsonSchema st =
     (if typeof jsonSchema = ''object'' then
        it ''should match against the JSON schema'' [BodyHaveSchema jsonSchema] st
      else throw (TypeError
        ''Parameter value must be a JSON schema object for function "checkJSONSchema(jsonSchema)"'') st)\<close>

definition checkLocation_loose :: "host \<Rightarrow> jsval \<Rightarrow> runner \<Rightarrow> outcome" where
  \<open>checkLocation_loose h location st =
     it (''should return the location "'' @ ToString h location @ ''"'')
        [HaveHeaderValue ''Location'' location] st\<close>

section \<open>The library of src/unnamed/part_000 (the stricter variant)\<close>

definition TYPE_ERROR_MESSAGE :: string where
  "TYPE_ERROR_MESSAGE = ''Wrong argument type for function''"

definition RANGE_ERROR_MESSAGE :: string where
  "RANGE_ERROR_MESSAGE = ''Argument out of range for function''"

text \<open>
  The errors of this variant are built from the message constant and
  \<open>getFunctionNameFromInside(new Error())\<close>, which cuts the name of the calling function
  out of the second line of the engine's stack trace. The model takes that name directly.
\<close>

definition type_error :: "string \<Rightarrow> error" where
  "type_error fname = TypeError (TYPE_ERROR_MESSAGE @ '' '' @ fname)"

definition range_error :: "string \<Rightarrow> error" where
  "range_error fname = RangeError (RANGE_ERROR_MESSAGE @ '' '' @ fname)"

definition convertTime_strict :: "host \<Rightarrow> jsval \<Rightarrow> error + string" where
  "convertTime_strict h time =
     (if getType time = ''Number'' then
        Inr (if js_ge h time (num 1000)
             then ToString h (JNum (num_div (ToNumber h time) 1000)) @ ''s''
             else ToString h time @ ''ms'')
      else Inl (type_error ''convertTime''))"

definition checkTime_strict :: "host \<Rightarrow> jsval \<Rightarrow> runner \<Rightarrow> outcome" where
  "checkTime_strict h time st =
     (if getType time = ''Number'' then
        (if js_gt h time (num 0) then
           (case convertTime_strict h time of
              Inl e \<Rightarrow> throw e st
            | Inr s \<Rightarrow> pm_test (''Response Time < '' @ s) [TimeBelow time] st)
         else throw (range_error ''checkTime'') st)
      else throw (type_error ''checkTime'') st)"

definition ERROR_CODES :: "int list" where
  "ERROR_CODES = [503, 500, 502, 504, 401, 403]"

text \<open>The loop over \<open>ERROR_CODES\<close>: the first entry equal to the response code signals the abort and breaks.\<close>

fun abort_on_error_code :: "int \<Rightarrow> int list \<Rightarrow> runner \<Rightarrow> runner" where
  "abort_on_error_code c [] st = st"
| "abort_on_error_code c (e # es) st =
     (if c = e then setNextRequest_null st else abort_on_error_code c es st)"

text \<open>The \<open>switch (true)\<close> that builds \<open>descriptionStatusCode\<close>; \<open>None\<close> is the \<open>default\<close> branch.\<close>

definition descriptionStatusCode :: "host \<Rightarrow> jsval \<Rightarrow> string option" where
  "descriptionStatusCode h statusCode =
     (if js_le h (num 100) statusCode \<and> js_le h statusCode (num 199) then
        Some (''Status Code '' @ ''(Information)'')
      else if js_le h (num 200) statusCode \<and> js_le h statusCode (num 299) then
        Some (''Status Code '' @ ''(Success)'')
      else if js_le h (num 300) statusCode \<and> js_le h statusCode (num 399) then
        Some (''Status Code '' @ ''(Redirection)'')
      else if js_le h (num 400) statusCode \<and> js_le h statusCode (num 499) then
        Some (''Status Code '' @ ''(Client Error)'')
      else if js_le h (num 500) statusCode \<and> js_le h statusCode (num 599) then
        Some (''Status Code '' @ ''(Server Error)'')
      else None)"

definition checkStatusCode_strict :: "host \<Rightarrow> response \<Rightarrow> jsval \<Rightarrow> runner \<Rightarrow> outcome" where
  "checkStatusCode_strict h r statusCode st =
     (if getType statusCode = ''Number'' then
        (case descriptionStatusCode h statusCode of
           None \<Rightarrow> throw (range_error ''checkStatusCode'') st
         | Some d \<Rightarrow>
             (let st1 = snd (pm_test d [HaveStatus statusCode] st);
                  st2 = (if number_ne h (Finite (of_int (code r))) statusCode
                         then abort_on_error_code (code r) ERROR_CODES st1 else st1)
              in (Inr (), st2)))
      else throw (type_error ''checkStatusCode'') st)"

definition checkContentType_strict :: "jsval \<Rightarrow> runner \<Rightarrow> outcome" where
  "checkContentType_strict contentType st =
     (if getType contentType = ''String'' then
        pm_test ''Content Type''
          [HaveHeader ''Content-Type'', HeaderInclude ''Content-Type'' contentType] st
      else throw (type_error ''checkContentType'') st)"

text \<open>
  The schema check evaluates \<open>tv4.validate(pm.response.json(), jsonSchema)\<close> before it
  registers the test, to put the validator's message into the description. An error
  thrown by either call ends the check there.
\<close>

definition checkJSONSchema_strict :: "host \<Rightarrow> response \<Rightarrow> jsval \<Rightarrow> runner \<Rightarrow> outcome" where
  "checkJSONSchema_strict h r jsonSchema st =
     (if getType jsonSchema = ''Object'' then
        (case json r of
           Inl e \<Rightarrow> throw e st
         | Inr document \<Rightarrow>
             (case tv4_validate h document jsonSchema of
                Inl e \<Rightarrow> throw e st
              | Inr verdict \<Rightarrow>
                  (let VALID = (verdict = TvValid);
                       DESCRIPTION_JSON_SCHEMA =
                         (case verdict of
                            TvValid \<Rightarrow> ''JSON Schema''
                          | TvInvalid message dataPath \<Rightarrow>
                              ''JSON Schema ('' @ message @ '' for data path '' @
                              (if dataPath \<noteq> [] then dataPath else ''/'') @ '')'')
                   in pm_test DESCRIPTION_JSON_SCHEMA [ExpectTrue VALID] st)))
      else throw (type_error ''checkJSONSchema'') st)"

definition checkLocation_strict :: "jsval \<Rightarrow> runner \<Rightarrow> outcome" where
  "checkLocation_strict location st =
     (if getType location = ''String'' then
        pm_test ''Location'' [HaveHeaderValue ''Location'' location] st
      else throw (type_error ''checkLocation'') st)"

section \<open>Decimal numerals\<close>

text \<open>The decimal numeral of a natural number: the canonical form of an array index as a property key.\<close>

definition digit :: "nat \<Rightarrow> char" where
  "digit n = ''0123456789'' ! n"

function show_nat :: "nat \<Rightarrow> string" where
  "show_nat n = (if n < 10 then [digit n] else show_nat (n div 10) @ [digit (n mod 10)])"
  by pat_completeness auto
termination
  by (relation "measure id") auto

section \<open>Outcomes of a call and buckets of status codes\<close>

text \<open>
  How a call ended, seen from the runner: it returned and registered exactly the test
  \<open>t\<close>; it raised an error of the given kind and left the runner as it was; it either
  returned and registered exactly one test after the ones already there, or raised one
  validation error (a \<open>TypeError\<close> or a \<open>RangeError\<close>) and left the runner as it was.
\<close>

definition registers :: "runner \<Rightarrow> test \<Rightarrow> outcome \<Rightarrow> bool" where
  "registers st t res = (fst res = Inr () \<and> tests (snd res) = tests st @ [t])"

definition raises_TypeError :: "runner \<Rightarrow> outcome \<Rightarrow> bool" where
  "raises_TypeError st res = (case fst res of Inl (TypeError m) \<Rightarrow> snd res = st | _ \<Rightarrow> False)"

definition raises_RangeError :: "runner \<Rightarrow> outcome \<Rightarrow> bool" where
  "raises_RangeError st res = (case fst res of Inl (RangeError m) \<Rightarrow> snd res = st | _ \<Rightarrow> False)"

fun validation_error :: "error \<Rightarrow> bool" where
  "validation_error (TypeError m) = True"
| "validation_error (RangeError m) = True"
| "validation_error (HostError n m) = False"


text \<open>
  What the host gives the schema check of part_000 before it registers anything: the
  value of \<open>tv4.validate(pm.response.json(), jsonSchema)\<close>, or the error one of the two
  calls throws; and whether a call returned.
\<close>

definition validated_body :: "host \<Rightarrow> response \<Rightarrow> jsval \<Rightarrow> error + tv4_result" where
  "validated_body h r jsonSchema =
     (case json r of Inl e \<Rightarrow> Inl e | Inr document \<Rightarrow> tv4_validate h document jsonSchema)"


text \<open>
  The hundred-buckets of the status codes, as the specification names them, and the
  label each variant gives a bucket.
\<close>

datatype bucket = Informational | Success | Redirection | ClientError | ServerError

definition in_range :: "rat \<Rightarrow> rat \<Rightarrow> jsnum \<Rightarrow> bool" where
  "in_range lo hi c = (num_le (Finite lo) c \<and> num_le c (Finite hi))"

definition hundred_bucket :: "jsnum \<Rightarrow> bucket option" where
  "hundred_bucket c =
     (if in_range 100 199 c then Some Informational
      else if in_range 200 299 c then Some Success
      else if in_range 300 399 c then Some Redirection
      else if in_range 400 499 c then Some ClientError
      else if in_range 500 599 c then Some ServerError
      else None)"

fun label_loose :: "bucket \<Rightarrow> string" where
  "label_loose Informational = ''should be an information response''"
| "label_loose Success = ''should be a successful response''"
| "label_loose Redirection = ''should be a redirection response''"
| "label_loose ClientError = ''should be a client error response''"
| "label_loose ServerError = ''should be a server error response''"

fun label_strict :: "bucket \<Rightarrow> string" where
  "label_strict Informational = ''Status Code (Information)''"
| "label_strict Success = ''Status Code (Success)''"
| "label_strict Redirection = ''Status Code (Redirection)''"
| "label_strict ClientError = ''Status Code (Client Error)''"
| "label_strict ServerError = ''Status Code (Server Error)''"

subsection \<open>A host, a response and a runner for the examples\<close>

text \<open>
  The theorems hold for every host; the closed examples need one. This one renders a
  number in decimal (an integer exactly, a fraction to at most twenty places), reads a
  string of decimal digits as its number, the empty string as zero and any other string
  as \<open>NaN\<close>, has a validator that accepts every document, and has the prototype members
  of ECMAScript 5's \<open>Object.prototype\<close>, with \<open>concat\<close>, \<open>indexOf\<close>, \<open>join\<close>, \<open>push\<close> and
  \<open>slice\<close> of \<open>Array.prototype\<close>; each member is a function of its own.
\<close>

fun fraction_digits :: "nat \<Rightarrow> nat \<Rightarrow> nat \<Rightarrow> string" where
  "fraction_digits 0 r d = []"
| "fraction_digits (Suc k) r d =
     (if r = 0 then [] else digit (10 * r div d) # fraction_digits k (10 * r mod d) d)"

definition show_rat :: "rat \<Rightarrow> string" where
  "show_rat q =
     (let (a, b) = quotient_of \<bar>q\<bar>; n = nat a; d = nat b
      in (if q < 0 then ''-'' else []) @ show_nat (n div d) @
         (if n mod d = 0 then [] else ''.'' @ fraction_digits 20 (n mod d) d))"

fun example_NumberToString :: "jsnum \<Rightarrow> string" where
  "example_NumberToString (Finite q) = show_rat q"
| "example_NumberToString NaN = ''NaN''"
| "example_NumberToString PosInfinity = ''Infinity''"
| "example_NumberToString NegInfinity = ''-Infinity''"

fun digits_value :: "string \<Rightarrow> nat \<Rightarrow> nat option" where
  "digits_value [] acc = Some acc"
| "digits_value (c # cs) acc =
     (if c \<in> set ''0123456789'' then digits_value cs (10 * acc + (of_char c - 48)) else None)"

definition example_StringToNumber :: "string \<Rightarrow> jsnum" where
  "example_StringToNumber s =
     (case digits_value s 0 of Some n \<Rightarrow> Finite (of_nat n) | None \<Rightarrow> NaN)"

definition native_function :: "nat \<Rightarrow> string \<Rightarrow> nat \<Rightarrow> jsval" where
  "native_function a name arity = JFun a [(''length'', num (of_nat arity)), (''name'', JStr name)]"

definition Object_prototype :: "(string \<times> jsval) list" where
  "Object_prototype =
     [(''constructor'', native_function 900 ''Object'' 1),
      (''toString'', native_function 901 ''toString'' 0),
      (''toLocaleString'', native_function 902 ''toLocaleString'' 0),
      (''valueOf'', native_function 903 ''valueOf'' 0),
      (''hasOwnProperty'', native_function 904 ''hasOwnProperty'' 1),
      (''isPrototypeOf'', native_function 905 ''isPrototypeOf'' 1),
      (''propertyIsEnumerable'', native_function 906 ''propertyIsEnumerable'' 1)]"

definition Array_prototype :: "(string \<times> jsval) list" where
  "Array_prototype =
     [(''constructor'', native_function 910 ''Array'' 1),
      (''toString'', native_function 911 ''toString'' 0),
      (''concat'', native_function 912 ''concat'' 1),
      (''indexOf'', native_function 913 ''indexOf'' 1),
      (''join'', native_function 914 ''join'' 1),
      (''push'', native_function 915 ''push'' 1),
      (''slice'', native_function 916 ''slice'' 2)]"

definition example_inherited :: "string \<Rightarrow> string \<Rightarrow> jsval option" where
  "example_inherited kind name =
     (if kind = ''Object'' then map_of Object_prototype name
      else if kind = ''Array'' then map_of (Array_prototype @ Object_prototype) name
      else None)"

definition example_host :: host where
  "example_host = \<lparr>NumberToString = example_NumberToString,
                    StringToNumber = example_StringToNumber,
                    FunctionToString = (\<lambda>a. ''function () { [native code] }''),
                    inherited = example_inherited,
                    tv4_validate = (\<lambda>document schema. Inr TvValid)\<rparr>"

definition example_response :: "int \<Rightarrow> response" where
  "example_response c =
     \<lparr>code = c, responseTime = 120, content_type = ''application/json'',
      headers = map_of [(''Content-Type'', ''application/json; charset=utf-8'')],
      body_text = ''{}'', body = JObj 0 [], json = Inr (JObj 0 [])\<rparr>"


definition fresh_runner :: runner where
  "fresh_runner = \<lparr>tests = [], nextRequestNull = 0\<rparr>"

section \<open>The composite test functions\<close>

text \<open>
  Statements run in sequence; an error raised by one of them ends the call. The
  expression statement \<open>x && f(x)\<close> calls \<open>f\<close> when \<open>x\<close> is truthy and does nothing
  otherwise.
\<close>

definition then_do :: "outcome \<Rightarrow> (runner \<Rightarrow> outcome) \<Rightarrow> outcome" where
  "then_do res f = (case fst res of Inl e \<Rightarrow> res | Inr u \<Rightarrow> f (snd res))"

definition when_truthy :: "jsval \<Rightarrow> (runner \<Rightarrow> outcome) \<Rightarrow> runner \<Rightarrow> outcome" where
  "when_truthy x f st = (if truthy x then f st else (Inr (), st))"

subsection \<open>src/Commontests.js\<close>

definition logResponseBody_loose :: "response \<Rightarrow> runner \<Rightarrow> outcome" where
  "logResponseBody_loose r st =
     when_truthy (JStr (body_text r)) (it (''response body: '' @ body_text r) []) st"

definition testCommon_loose ::
  "host \<Rightarrow> response \<Rightarrow> jsval \<Rightarrow> jsval \<Rightarrow> jsval \<Rightarrow> jsval \<Rightarrow> runner \<Rightarrow> outcome" where
  "testCommon_loose h r statusCode contentType jsonSchema location st =
     then_do (logResponseBody_loose r st) (\<lambda>st.
     then_do (when_truthy statusCode (checkStatusCode_loose h statusCode) st) (\<lambda>st.
     then_do (when_truthy contentType (checkContentType_loose h contentType) st) (\<lambda>st.
     then_do (when_truthy jsonSchema (checkJSONSchema_loose jsonSchema) st) (\<lambda>st.
     when_truthy location (checkLocation_loose h location) st))))"

definition testCommonAndTime_loose ::
  "host \<Rightarrow> response \<Rightarrow> jsval \<Rightarrow> jsval \<Rightarrow> jsval \<Rightarrow> jsval \<Rightarrow> jsval \<Rightarrow> runner \<Rightarrow> outcome" where
  "testCommonAndTime_loose h r statusCode time contentType jsonSchema location st =
     then_do (testCommon_loose h r statusCode contentType jsonSchema location st)
       (when_truthy time (checkTime_loose h time))"

subsection \<open>src/unnamed/part_000\<close>

definition logResponseBody_strict :: "response \<Rightarrow> runner \<Rightarrow> outcome" where
  "logResponseBody_strict r st =
     (let RESPONSE_BODY = body_text r
      in when_truthy (JStr RESPONSE_BODY) (pm_test (''Response Body: '' @ RESPONSE_BODY) []) st)"

definition testCommon_strict ::
  "host \<Rightarrow> response \<Rightarrow> jsval \<Rightarrow> jsval \<Rightarrow> jsval \<Rightarrow> jsval \<Rightarrow> runner \<Rightarrow> outcome" where
  "testCommon_strict h r statusCode contentType jsonSchema location st =
     then_do (logResponseBody_strict r st) (\<lambda>st.
     then_do (when_truthy statusCode (checkStatusCode_strict h r statusCode) st) (\<lambda>st.
     if strict_eq (num (of_int (code r))) statusCode then
       then_do (when_truthy contentType (checkContentType_strict contentType) st) (\<lambda>st.
       then_do (when_truthy jsonSchema (checkJSONSchema_strict h r jsonSchema) st) (\<lambda>st.
       when_truthy location (checkLocation_strict location) st))
     else (Inr (), st)))"

definition testCommonAndTime_strict ::
  "host \<Rightarrow> response \<Rightarrow> jsval \<Rightarrow> jsval \<Rightarrow> jsval \<Rightarrow> jsval \<Rightarrow> jsval \<Rightarrow> runner \<Rightarrow> outcome" where
  "testCommonAndTime_strict h r statusCode time contentType jsonSchema location st =
     then_do (testCommon_strict h r statusCode contentType jsonSchema location st)
       (when_truthy time (checkTime_strict h time))"

subsection \<open>The checks a call of testCommon runs, in the specification's words\<close>

text \<open>
  The specification describes \<open>testCommon\<close> by the checks it runs: the status-code check
  if a status code is provided, then the content-type, schema and Location checks that
  are provided, in the stricter variant only if the actual status equals the expected
  one. A plan is that list of checks; running a plan runs its checks in order and stops
  at the first that raises.
\<close>

datatype check =
    StatusCodeCheck jsval
  | ContentTypeCheck jsval
  | JSONSchemaCheck jsval
  | LocationCheck jsval

fun run_check_loose :: "host \<Rightarrow> check \<Rightarrow> runner \<Rightarrow> outcome" where
  "run_check_loose h (StatusCodeCheck v) = checkStatusCode_loose h v"
| "run_check_loose h (ContentTypeCheck v) = checkContentType_loose h v"
| "run_check_loose h (JSONSchemaCheck v) = checkJSONSchema_loose v"
| "run_check_loose h (LocationCheck v) = checkLocation_loose h v"

fun run_check_strict :: "host \<Rightarrow> response \<Rightarrow> check \<Rightarrow> runner \<Rightarrow> outcome" where
  "run_check_strict h r (StatusCodeCheck v) = checkStatusCode_strict h r v"
| "run_check_strict h r (ContentTypeCheck v) = checkContentType_strict v"
| "run_check_strict h r (JSONSchemaCheck v) = checkJSONSchema_strict h r v"
| "run_check_strict h r (LocationCheck v) = checkLocation_strict v"

fun run_plan :: "(check \<Rightarrow> runner \<Rightarrow> outcome) \<Rightarrow> check list \<Rightarrow> runner \<Rightarrow> outcome" where
  "run_plan run [] st = (Inr (), st)"
| "run_plan run (c # cs) st =
     (case run c st of
        (Inl e, st') \<Rightarrow> (Inl e, st')
      | (Inr u, st') \<Rightarrow> run_plan run cs st')"

definition supplied :: "(jsval \<Rightarrow> check) \<Rightarrow> jsval \<Rightarrow> check list" where
  "supplied mk v = (if truthy v then [mk v] else [])"

definition testCommon_plan :: "bool \<Rightarrow> jsval \<Rightarrow> jsval \<Rightarrow> jsval \<Rightarrow> jsval \<Rightarrow> check list" where
  "testCommon_plan status_matches statusCode contentType jsonSchema location =
     supplied StatusCodeCheck statusCode @
     (if status_matches
      then supplied ContentTypeCheck contentType @ supplied JSONSchemaCheck jsonSchema @
           supplied LocationCheck location
      else [])"

text \<open>The stricter variant's gate: the actual status equals (\<open>===\<close>) the expected one.\<close>

definition status_matches :: "response \<Rightarrow> jsval \<Rightarrow> bool" where
  "status_matches r statusCode = strict_eq (num (of_int (code r))) statusCode"

section \<open>getIndexObjectInArray\<close>

text \<open>
  Reading a property, \<open>item[property]\<close>. An object or a function gives the value of its
  own property of that name (the keys of an object are distinct); an array and a string
  give their length and their elements by index. A name the value does not own is looked
  up along its prototype chain, so \<open>{}["toString"]\<close> is a function; the result is
  \<open>undefined\<close> only when the chain has no such member either. Reading a property of
  \<open>null\<close> or \<open>undefined\<close> raises the engine's own \<open>TypeError\<close> (the message is V8's).
\<close>

definition array_index :: "string \<Rightarrow> nat \<Rightarrow> nat option" where
  "array_index p n = find (\<lambda>i. show_nat i = p) [0..<n]"

definition null_read_error :: "string \<Rightarrow> string \<Rightarrow> error" where
  "null_read_error what p =
     TypeError (''Cannot read properties of '' @ what @ '' (reading '' @ [CHR 0x27] @ p @
       [CHR 0x27] @ '')'')"

definition from_prototype :: "host \<Rightarrow> string \<Rightarrow> string \<Rightarrow> jsval" where
  "from_prototype h kind p = (case inherited h kind p of Some v \<Rightarrow> v | None \<Rightarrow> JUndefined)"

fun get_prop :: "host \<Rightarrow> jsval \<Rightarrow> string \<Rightarrow> error + jsval" where
  "get_prop h JUndefined p = Inl (null_read_error ''undefined'' p)"
| "get_prop h JNull p = Inl (null_read_error ''null'' p)"
| "get_prop h (JObj a fs) p =
     Inr (case map_of fs p of Some v \<Rightarrow> v | None \<Rightarrow> from_prototype h ''Object'' p)"
| "get_prop h (JFun a fs) p =
     Inr (case map_of fs p of Some v \<Rightarrow> v | None \<Rightarrow> from_prototype h ''Function'' p)"
| "get_prop h (JArr a xs) p =
     Inr (if p = ''length'' then num (of_nat (length xs))
          else case array_index p (length xs) of
                 Some i \<Rightarrow> xs ! i
               | None \<Rightarrow> from_prototype h ''Array'' p)"
| "get_prop h (JStr s) p =
     Inr (if p = ''length'' then num (of_nat (length s))
          else case array_index p (length s) of
                 Some i \<Rightarrow> JStr [s ! i]
               | None \<Rightarrow> from_prototype h ''String'' p)"
| "get_prop h (JBool b) p = Inr (from_prototype h ''Boolean'' p)"
| "get_prop h (JNum n) p = Inr (from_prototype h ''Number'' p)"

text \<open>
  \<open>Array.prototype.findIndex\<close>: the index of the first element for which the callback
  returns true, \<open>-1\<close> when there is none; an error raised by the callback ends the search.
\<close>

fun findIndex_from :: "(jsval \<Rightarrow> error + bool) \<Rightarrow> jsval list \<Rightarrow> int \<Rightarrow> error + int" where
  "findIndex_from f [] i = Inr (- 1)"
| "findIndex_from f (x # xs) i =
     (case f x of
        Inl e \<Rightarrow> Inl e
      | Inr b \<Rightarrow> if b then Inr i else findIndex_from f xs (i + 1))"

definition findIndex :: "(jsval \<Rightarrow> error + bool) \<Rightarrow> jsval list \<Rightarrow> error + int" where
  "findIndex f xs = findIndex_from f xs 0"

text \<open>The callback \<open>item => item[property] === value\<close>.\<close>

definition item_matches :: "host \<Rightarrow> string \<Rightarrow> jsval \<Rightarrow> jsval \<Rightarrow> error + bool" where
  "item_matches h p value item =
     (case get_prop h item p of Inl e \<Rightarrow> Inl e | Inr v \<Rightarrow> Inr (strict_eq v value))"

definition getIndexObjectInArray_loose :: "host \<Rightarrow> jsval \<Rightarrow> jsval \<Rightarrow> jsval \<Rightarrow> error + int" where
  \<open>getIndexObjectInArray_loose h array property value =
     (case array of
        JArr a items \<Rightarrow>
          if list_all (\<lambda>item. typeof item = ''object'') items \<and> typeof property = ''string''
          then findIndex (item_matches h (ToString h property) value) items
          else Inl (TypeError ''Parameter values must be of type "Array.<Object>, string, any" for function "getIndexObjectInArray(array, property, value)"'')
      | _ \<Rightarrow> Inl (TypeError ''Parameter values must be of type "Array.<Object>, string, any" for function "getIndexObjectInArray(array, property, value)"''))\<close>

definition getIndexObjectInArray_strict :: "host \<Rightarrow> jsval \<Rightarrow> jsval \<Rightarrow> jsval \<Rightarrow> error + int" where
  "getIndexObjectInArray_strict h array property value =
     (case array of
        JArr a items \<Rightarrow>
          if list_all (\<lambda>item. getType item = ''Object'') items \<and> getType property = ''String''
          then findIndex (item_matches h (ToString h property) value) items
          else Inl (type_error ''getIndexObjectInArray'')
      | _ \<Rightarrow> Inl (type_error ''getIndexObjectInArray''))"

subsection \<open>The index of the first match, in the specification's words\<close>

text \<open>
  The named property of an element, read as the language reads it, equals (\<open>===\<close>) the
  given value; the index of the first element of a list that satisfies a predicate, or
  \<open>-1\<close>; and what makes a number that index: it is \<open>-1\<close> and no element matches, or it is
  a position whose element matches while no earlier one does.
\<close>

definition property_equals :: "host \<Rightarrow> string \<Rightarrow> jsval \<Rightarrow> jsval \<Rightarrow> bool" where
  "property_equals h p value item =
     (case get_prop h item p of Inl e \<Rightarrow> False | Inr v \<Rightarrow> strict_eq v value)"

definition first_match_or_minus_one :: "('a \<Rightarrow> bool) \<Rightarrow> 'a list \<Rightarrow> int \<Rightarrow> bool" where
  "first_match_or_minus_one P xs k =
     (if list_ex P xs
      then 0 \<le> k \<and> nat k < length xs \<and> P (xs ! nat k) \<and> list_all (\<lambda>x. \<not> P x) (take (nat k) xs)
      else k = - 1)"

definition elements :: "jsval \<Rightarrow> jsval list" where
  "elements v = (case v of JArr a xs \<Rightarrow> xs | _ \<Rightarrow> [])"

definition first_index :: "('a \<Rightarrow> bool) \<Rightarrow> 'a list \<Rightarrow> int" where
  "first_index P xs =
     (if list_ex P xs then int (length (takeWhile (\<lambda>x. \<not> P x) xs)) else - 1)"

definition is_TypeError :: "error + 'a \<Rightarrow> bool" where
  "is_TypeError res = (case res of Inl (TypeError m) \<Rightarrow> True | _ \<Rightarrow> False)"

section \<open>The regex pattern providers\<close>

text \<open>
  The pattern strings, character for character. In the JavaScript source the backslash
  of \<open>\.\<close> is written doubled inside the string literal; the string holds one.
\<close>

definition getRegexGUID :: string where
  "getRegexGUID =
     ''^(?!00000000-0000-0000-0000-000000000000)([0-9a-zA-Z]{8}-[0-9a-zA-Z]{4}-[0-9a-zA-Z]{4}-[0-9a-zA-Z]{4}-[0-9a-zA-Z]{12})$''"

definition getRegexISODateTime :: string where
  "getRegexISODateTime =
     ''^(?!0001-01-01T00:00:00Z)([0-9]{4}-[0-9]{2}-[0-9]{2}T[0-9]{2}:[0-9]{2}:[0-9]{2}.?[0-9]*Z)$''"

definition getRegexURL_loose :: string where
  "getRegexURL_loose = ''^https?://[0-9a-zA-Z-]+'' @ [CHR 0x5C] @ ''.?[0-9a-zA-Z-]+''"

definition getRegexURL_strict :: string where
  "getRegexURL_strict =
     ''^https?://[0-9a-zA-Z-]+'' @ [CHR 0x5C] @ ''.[0-9a-zA-Z-]+|https?://localhost''"

section \<open>getSchemaHAL\<close>

text \<open>
  The function builds its result with object and array literals, each of which
  allocates a new heap cell. A literal is evaluated against the next free address and
  returns its value with the next free address after it: the cell of the literal itself
  comes first, then its members in source order. A member that is a primitive or an
  existing value allocates nothing.
\<close>

type_synonym 'a alloc = "nat \<Rightarrow> 'a \<times> nat"

definition existing :: "jsval \<Rightarrow> jsval alloc" where
  "existing v a = (v, a)"

abbreviation str :: "string \<Rightarrow> jsval alloc" where
  "str s \<equiv> existing (JStr s)"

abbreviation number :: "rat \<Rightarrow> jsval alloc" where
  "number q \<equiv> existing (num q)"

fun alloc_all :: "jsval alloc list \<Rightarrow> jsval list alloc" where
  "alloc_all [] a = ([], a)"
| "alloc_all (m # ms) a =
     (case m a of (v, a1) \<Rightarrow> (case alloc_all ms a1 of (vs, a2) \<Rightarrow> (v # vs, a2)))"

definition array_literal :: "jsval alloc list \<Rightarrow> jsval alloc" where
  "array_literal ms a = (case alloc_all ms (Suc a) of (vs, a') \<Rightarrow> (JArr a vs, a'))"

definition object_literal :: "(string \<times> jsval alloc) list \<Rightarrow> jsval alloc" where
  "object_literal fs a =
     (case alloc_all (map snd fs) (Suc a) of (vs, a') \<Rightarrow> (JObj a (zip (map fst fs) vs), a'))"

text \<open>
  The default parameter value \<open>schemaResourceItems = {}\<close>: a new empty object when the
  argument is \<open>undefined\<close> (absent), the argument otherwise.
\<close>

definition default_empty_object :: "jsval \<Rightarrow> jsval alloc" where
  "default_empty_object v a = (if v = JUndefined then object_literal [] a else (v, a))"

subsection \<open>src/Commontests.js\<close>

definition getSchemaHAL_loose :: "nat \<Rightarrow> jsval \<Rightarrow> jsval" where
  "getSchemaHAL_loose a schemaResourceItems =
     (case default_empty_object schemaResourceItems a of (schemaResourceItems, a1) \<Rightarrow>
      fst (object_literal [
        (''type'', str ''object''),
        (''required'', array_literal [str ''_links'', str ''_embedded'', str ''_page'']),
        (''properties'', object_literal [
          (''_links'', object_literal [
            (''type'', str ''object''),
            (''required'', array_literal
               [str ''self'', str ''next'', str ''previous'', str ''first'', str ''last'']),
            (''properties'', object_literal [
              (''self'', object_literal [
                (''type'', str ''object''),
                (''required'', array_literal [str ''href'']),
                (''properties'', object_literal [
                  (''href'', object_literal
                     [(''type'', str ''string''), (''pattern'', str getRegexURL_loose)])])]),
              (''next'', object_literal [
                (''type'', array_literal [str ''object'', str ''null'']),
                (''required'', array_literal [str ''href'']),
                (''properties'', object_literal [
                  (''href'', object_literal
                     [(''type'', str ''string''), (''pattern'', str getRegexURL_loose)])])]),
              (''previous'', object_literal [
                (''type'', array_literal [str ''object'', str ''null'']),
                (''required'', array_literal [str ''href'']),
                (''properties'', object_literal [
                  (''href'', object_literal
                     [(''type'', str ''string''), (''pattern'', str getRegexURL_loose)])])]),
              (''first'', object_literal [
                (''type'', str ''object''),
                (''required'', array_literal [str ''href'']),
                (''properties'', object_literal [
                  (''href'', object_literal
                     [(''type'', str ''string''), (''pattern'', str getRegexURL_loose)])])]),
              (''last'', object_literal [
                (''type'', str ''object''),
                (''required'', array_literal [str ''href'']),
                (''properties'', object_literal [
                  (''href'', object_literal
                     [(''type'', str ''string''), (''pattern'', str getRegexURL_loose)])])])])]),
          (''_embedded'', object_literal [
            (''type'', str ''object''),
            (''required'', array_literal [str ''resourceList'']),
            (''properties'', object_literal [
              (''resourceList'', object_literal [
                (''type'', str ''array''),
                (''items'', existing schemaResourceItems)])])]),
          (''_page'', object_literal [
            (''type'', str ''object''),
            (''required'', array_literal [str ''size'', str ''number'']),
            (''properties'', object_literal [
              (''size'', object_literal
                 [(''type'', str ''number''), (''minimum'', number 0), (''multipleOf'', number 1)]),
              (''totalElements'', object_literal
                 [(''type'', str ''number''), (''minimum'', number 0), (''multipleOf'', number 1)]),
              (''totalPages'', object_literal
                 [(''type'', str ''number''), (''minimum'', number 0), (''multipleOf'', number 1)]),
              (''number'', object_literal
                 [(''type'', str ''number''), (''minimum'', number 0), (''multipleOf'', number 1)])])])])]
        a1))"

subsection \<open>src/unnamed/part_000\<close>

definition getSchemaHAL_strict :: "nat \<Rightarrow> jsval \<Rightarrow> error + jsval" where
  "getSchemaHAL_strict a schemaResourceItems =
     (case default_empty_object schemaResourceItems a of (schemaResourceItems, a1) \<Rightarrow>
      if getType schemaResourceItems = ''Object'' then
        Inr (fst (object_literal [
          (''type'', str ''object''),
          (''required'', array_literal [str ''_links'', str ''_embedded'', str ''_page'']),
          (''properties'', object_literal [
            (''_links'', object_literal [
              (''type'', str ''object''),
              (''required'', array_literal [str ''self'', str ''first'', str ''last'']),
              (''properties'', object_literal [
                (''self'', object_literal [
                  (''type'', str ''object''),
                  (''required'', array_literal [str ''href'']),
                  (''properties'', object_literal [
                    (''href'', object_literal
                       [(''type'', str ''string''), (''pattern'', str getRegexURL_strict)])])]),
                (''next'', object_literal [
                  (''type'', array_literal [str ''object'', str ''null'']),
                  (''required'', array_literal [str ''href'']),
                  (''properties'', object_literal [
                    (''href'', object_literal
                       [(''type'', str ''string''), (''pattern'', str getRegexURL_strict)])])]),
                (''previous'', object_literal [
                  (''type'', array_literal [str ''object'', str ''null'']),
                  (''required'', array_literal [str ''href'']),
                  (''properties'', object_literal [
                    (''href'', object_literal
                       [(''type'', str ''string''), (''pattern'', str getRegexURL_strict)])])]),
                (''first'', object_literal [
                  (''type'', str ''object''),
                  (''required'', array_literal [str ''href'']),
                  (''properties'', object_literal [
                    (''href'', object_literal
                       [(''type'', str ''string''), (''pattern'', str getRegexURL_strict)])])]),
                (''last'', object_literal [
                  (''type'', str ''object''),
                  (''required'', array_literal [str ''href'']),
                  (''properties'', object_literal [
                    (''href'', object_literal
                       [(''type'', str ''string''), (''pattern'', str getRegexURL_strict)])])])])]),
            (''_embedded'', object_literal [
              (''type'', str ''object''),
              (''required'', array_literal [str ''resourceList'']),
              (''properties'', object_literal [
                (''resourceList'', object_literal [
                  (''type'', str ''array''),
                  (''items'', existing schemaResourceItems)])])]),
            (''_page'', object_literal [
              (''type'', str ''object''),
              (''required'', array_literal [str ''size'', str ''number'']),
              (''properties'', object_literal [
                (''size'', object_literal
                   [(''type'', str ''number''), (''minimum'', number 0), (''multipleOf'', number 1)]),
                (''totalElements'', object_literal
                   [(''type'', str ''number''), (''minimum'', number 0), (''multipleOf'', number 1)]),
                (''totalPages'', object_literal
                   [(''type'', str ''number''), (''minimum'', number 0), (''multipleOf'', number 1)]),
                (''number'', object_literal
                   [(''type'', str ''number''), (''minimum'', number 1), (''multipleOf'', number 1)])])])])]
          a1))
      else Inl (type_error ''getSchemaHAL''))"

subsection \<open>Reading a schema\<close>

text \<open>
  The value a schema object holds under a key of its own (a schema is read by its own
  keys); the value at a path of such keys; the \<open>required\<close> keys of a schema object; and
  the envelope the specification asks for: an object schema that requires the top-level
  keys \<open>_links\<close>, \<open>_embedded\<close> and \<open>_page\<close>.
\<close>

definition own_property :: "jsval \<Rightarrow> string \<Rightarrow> jsval" where
  "own_property v p =
     (case v of JObj a fs \<Rightarrow> (case map_of fs p of Some x \<Rightarrow> x | None \<Rightarrow> JUndefined)
      | _ \<Rightarrow> JUndefined)"

fun path :: "string list \<Rightarrow> jsval \<Rightarrow> jsval" where
  "path [] v = v"
| "path (p # ps) v = path ps (own_property v p)"

definition required_keys :: "jsval \<Rightarrow> jsval list" where
  "required_keys schema = elements (own_property schema ''required'')"

definition hal_envelope :: "jsval \<Rightarrow> bool" where
  "hal_envelope schema =
     (getType schema = ''Object'' \<and> own_property schema ''type'' = JStr ''object'' \<and>
      required_keys schema = [JStr ''_links'', JStr ''_embedded'', JStr ''_page''])"

definition items_path :: "string list" where
  "items_path = [''properties'', ''_embedded'', ''properties'', ''resourceList'', ''items'']"

text \<open>The call returned such an envelope schema, with the given value as the schema of the items.\<close>

definition returns_envelope_with_items :: "jsval \<Rightarrow> error + jsval \<Rightarrow> bool" where
  "returns_envelope_with_items items res =
     (case res of
        Inr schema \<Rightarrow> hal_envelope schema \<and> path items_path schema = items
      | Inl e \<Rightarrow> False)"

section \<open>Regular expressions\<close>

text \<open>
  The patterns are embedded in JSON schemas, where the validator compiles a pattern with
  \<open>new RegExp(pattern)\<close> (no flags) and applies \<open>test\<close>: the string matches when the
  pattern matches at some start position. This section has the part of the regex
  language the three patterns use: literal and escaped characters, the dot, character
  classes of ranges, \<open>^\<close> and \<open>$\<close>, negative lookahead, groups, alternation and the
  quantifiers \<open>?\<close>, \<open>+\<close>, \<open>*\<close> and \<open>{n}\<close>.
\<close>

datatype regex =
    Empty
  | Chr char
  | AnyChar
  | Class "(char \<times> char) list"
  | Bol
  | Eol
  | NegLookahead regex
  | Seq regex regex
  | Alt regex regex
  | Opt regex
  | Star regex

text \<open>\<open>r{n}\<close> is \<open>n\<close> copies of \<open>r\<close> in sequence, and \<open>r+\<close> is \<open>r\<close> followed by \<open>r*\<close>.\<close>

fun repeat :: "nat \<Rightarrow> regex \<Rightarrow> regex" where
  "repeat 0 r = Empty"
| "repeat (Suc n) r = Seq r (repeat n r)"

definition in_class :: "(char \<times> char) list \<Rightarrow> char \<Rightarrow> bool" where
  "in_class ranges c =
     list_ex (\<lambda>(lo, hi). (of_char lo :: nat) \<le> of_char c \<and> (of_char c :: nat) \<le> of_char hi) ranges"

definition line_terminator :: "char \<Rightarrow> bool" where
  "line_terminator c = (c = CHR 0x0A \<or> c = CHR 0x0D)"

subsection \<open>Matching\<close>

text \<open>
  A position in the subject string is the text still to be read, with a flag that says
  whether it is the start of the string. \<open>ends r p\<close> lists the positions at which a match
  of \<open>r\<close> that starts at \<open>p\<close> can end, in the order backtracking tries them (greedy
  first). An iteration of \<open>*\<close> that consumes nothing is not repeated.
\<close>

type_synonym position = "bool \<times> string"

definition consume :: "(char \<Rightarrow> bool) \<Rightarrow> position \<Rightarrow> position list" where
  "consume P p = (case snd p of [] \<Rightarrow> [] | c # cs \<Rightarrow> if P c then [(False, cs)] else [])"

definition shorter :: "position \<Rightarrow> position \<Rightarrow> bool" where
  "shorter p q = (length (snd q) < length (snd p))"

function ends :: "regex \<Rightarrow> position \<Rightarrow> position list" where
  "ends Empty p = [p]"
| "ends (Chr c) p = consume (\<lambda>x. x = c) p"
| "ends AnyChar p = consume (\<lambda>x. \<not> line_terminator x) p"
| "ends (Class ranges) p = consume (in_class ranges) p"
| "ends Bol p = (if fst p then [p] else [])"
| "ends Eol p = (if snd p = [] then [p] else [])"
| "ends (NegLookahead r) p = (if ends r p = [] then [p] else [])"
| "ends (Seq r1 r2) p = concat (map (ends r2) (ends r1 p))"
| "ends (Alt r1 r2) p = ends r1 p @ ends r2 p"
| "ends (Opt r) p = ends r p @ [p]"
| "ends (Star r) p = concat (map (ends (Star r)) (filter (shorter p) (ends r p))) @ [p]"
  by pat_completeness auto
termination
  by (relation "measures [\<lambda>(r, p). size r, \<lambda>(r, p). length (snd p)]")
     (auto simp: shorter_def)

text \<open>\<open>RegExp.prototype.test\<close>: some start position has a match.\<close>

definition regex_test :: "regex \<Rightarrow> string \<Rightarrow> bool" where
  "regex_test r s = list_ex (\<lambda>k. ends r (k = 0, drop k s) \<noteq> []) [0..<Suc (length s)]"

subsection \<open>Reading a pattern string\<close>

text \<open>
  The parser of the pattern syntax. A disjunction is alternatives separated by \<open>|\<close>; an
  alternative is a sequence of terms; a term is an atom with an optional quantifier.
  Syntax outside the part described above is rejected. The first argument bounds the
  depth of the recursion.
\<close>

fun parse_number :: "string \<Rightarrow> nat \<Rightarrow> (nat \<times> string) option" where
  "parse_number [] acc = None"
| "parse_number (c # cs) acc =
     (if c = CHR ''}'' then Some (acc, cs)
      else if c \<in> set ''0123456789'' then parse_number cs (10 * acc + (of_char c - 48))
      else None)"

fun parse_class :: "string \<Rightarrow> (char \<times> char) list \<Rightarrow> ((char \<times> char) list \<times> string) option" where
  "parse_class [] acc = None"
| "parse_class (c # cs) acc =
     (if c = CHR '']'' then Some (rev acc, cs)
      else if c = CHR 0x5C \<or> c = CHR ''['' then None
      else case cs of
        d # hi # cs' \<Rightarrow>
          if d = CHR ''-'' \<and> hi \<noteq> CHR '']'' \<and> hi \<noteq> CHR 0x5C
          then parse_class cs' ((c, hi) # acc)
          else parse_class cs ((c, c) # acc)
      | _ \<Rightarrow> parse_class cs ((c, c) # acc))"

definition parse_quantifier :: "regex \<Rightarrow> string \<Rightarrow> (regex \<times> string) option" where
  "parse_quantifier r s =
     (case s of
        [] \<Rightarrow> Some (r, s)
      | c # cs \<Rightarrow>
          (case (if c = CHR ''?'' then Some (Opt r, cs)
                 else if c = CHR ''*'' then Some (Star r, cs)
                 else if c = CHR ''+'' then Some (Seq r (Star r), cs)
                 else if c = CHR ''{'' then
                   (if cs \<noteq> [] \<and> hd cs \<noteq> CHR ''}''
                    then map_option (\<lambda>(n, rest). (repeat n r, rest)) (parse_number cs 0)
                    else None)
                 else Some (r, s)) of
             None \<Rightarrow> None
           | Some (q, rest) \<Rightarrow>
               if q \<noteq> r \<and> rest \<noteq> [] \<and> hd rest \<in> set ''?*+{'' then None else Some (q, rest)))"

fun parse_disjunction :: "nat \<Rightarrow> string \<Rightarrow> (regex \<times> string) option"
  and parse_alternative :: "nat \<Rightarrow> string \<Rightarrow> (regex \<times> string) option"
  and parse_atom :: "nat \<Rightarrow> string \<Rightarrow> (regex \<times> string) option" where
  "parse_disjunction 0 s = None"
| "parse_disjunction (Suc n) s =
     (case parse_alternative n s of
        None \<Rightarrow> None
      | Some (r, rest) \<Rightarrow>
          (case rest of
             c # rest' \<Rightarrow>
               if c = CHR ''|''
               then map_option (\<lambda>(r', rest''). (Alt r r', rest'')) (parse_disjunction n rest')
               else Some (r, rest)
           | [] \<Rightarrow> Some (r, rest)))"
| "parse_alternative 0 s = None"
| "parse_alternative (Suc n) s =
     (if s = [] \<or> hd s = CHR ''|'' \<or> hd s = CHR '')'' then Some (Empty, s)
      else case parse_atom n s of
        None \<Rightarrow> None
      | Some (a, rest) \<Rightarrow>
          (case parse_quantifier a rest of
             None \<Rightarrow> None
           | Some (t, rest') \<Rightarrow>
               map_option (\<lambda>(r, rest''). (Seq t r, rest'')) (parse_alternative n rest')))"
| "parse_atom 0 s = None"
| "parse_atom (Suc n) s =
     (case s of
        [] \<Rightarrow> None
      | c # cs \<Rightarrow>
          if c = CHR ''^'' then Some (Bol, cs)
          else if c = CHR ''$'' then Some (Eol, cs)
          else if c = CHR ''.'' then Some (AnyChar, cs)
          else if c = CHR 0x5C then
            (case cs of
               [] \<Rightarrow> None
             | e # cs' \<Rightarrow>
                 if in_class [(CHR ''0'', CHR ''9''), (CHR ''a'', CHR ''z''), (CHR ''A'', CHR ''Z'')] e
                 then None else Some (Chr e, cs'))
          else if c = CHR ''['' then
            (if cs \<noteq> [] \<and> hd cs = CHR ''^'' then None
             else map_option (\<lambda>(ranges, rest). (Class ranges, rest)) (parse_class cs []))
          else if c = CHR ''('' then
            (if take 2 cs = ''?!'' then
               (case parse_disjunction n (drop 2 cs) of
                  None \<Rightarrow> None
                | Some (r, rest) \<Rightarrow>
                    if rest \<noteq> [] \<and> hd rest = CHR '')'' then Some (NegLookahead r, tl rest)
                    else None)
             else if cs \<noteq> [] \<and> hd cs = CHR ''?'' then None
             else
               (case parse_disjunction n cs of
                  None \<Rightarrow> None
                | Some (r, rest) \<Rightarrow>
                    if rest \<noteq> [] \<and> hd rest = CHR '')'' then Some (r, tl rest) else None))
          else if c \<in> set ''*+?{}])|'' then None
          else Some (Chr c, cs))"

definition parse_regex :: "string \<Rightarrow> regex option" where
  "parse_regex s =
     (case parse_disjunction (3 * length s + 3) s of
        Some (r, rest) \<Rightarrow> if rest = [] then Some r else None
      | None \<Rightarrow> None)"

text \<open>A string matches a pattern string when the pattern parses and its regex tests true.\<close>

definition matches_pattern :: "string \<Rightarrow> string \<Rightarrow> bool" where
  "matches_pattern pattern s =
     (case parse_regex pattern of Some r \<Rightarrow> regex_test r s | None \<Rightarrow> False)"

subsection \<open>Shapes of GUID and URL strings\<close>

text \<open>
  A string of hyphen-separated groups with the given lengths, every character of a group
  being of the given kind; the all-zero GUID; hexadecimal digits and the characters of
  the class \<open>[0-9a-zA-Z]\<close>; the characters of the class \<open>[0-9a-zA-Z-]\<close> of the URL
  patterns.
\<close>

fun hyphenated :: "(char \<Rightarrow> bool) \<Rightarrow> nat list \<Rightarrow> string \<Rightarrow> bool" where
  "hyphenated P [] s = False"
| "hyphenated P [n] s = (length s = n \<and> list_all P s)"
| "hyphenated P (n # m # ns) s =
     (n < length s \<and> list_all P (take n s) \<and> s ! n = CHR ''-'' \<and>
      hyphenated P (m # ns) (drop (Suc n) s))"

definition alphanumeric :: "char \<Rightarrow> bool" where
  "alphanumeric c = in_class [(CHR ''0'', CHR ''9''), (CHR ''a'', CHR ''z''), (CHR ''A'', CHR ''Z'')] c"

definition hex_digit :: "char \<Rightarrow> bool" where
  "hex_digit c = in_class [(CHR ''0'', CHR ''9''), (CHR ''a'', CHR ''f''), (CHR ''A'', CHR ''F'')] c"

definition zero_guid :: string where
  "zero_guid = ''00000000-0000-0000-0000-000000000000''"

definition host_char :: "char \<Rightarrow> bool" where
  "host_char c =
     in_class [(CHR ''0'', CHR ''9''), (CHR ''a'', CHR ''z''), (CHR ''A'', CHR ''Z''),
               (CHR ''-'', CHR ''-'')] c"

text \<open>
  What is left of a string after a given prefix, if it begins with it; what follows
  \<open>http://\<close> or \<open>https://\<close>; and the shapes of a URL: after the scheme, one or more host
  characters, then a dot and a host character (\<open>dotted_url\<close>), or the same with the dot
  optional (\<open>optional_dot_url\<close>), or the word \<open>localhost\<close> (\<open>localhost_url\<close>). Anything may
  follow.
\<close>

definition after_prefix :: "string \<Rightarrow> string \<Rightarrow> string option" where
  "after_prefix w s =
     (if length w \<le> length s \<and> take (length w) s = w then Some (drop (length w) s) else None)"

definition after_scheme :: "string \<Rightarrow> string option" where
  "after_scheme s =
     (case after_prefix ''http://'' s of
        Some rest \<Rightarrow> Some rest
      | None \<Rightarrow> after_prefix ''https://'' s)"

definition host_start :: "string \<Rightarrow> bool" where
  "host_start t = (t \<noteq> [] \<and> host_char (hd t))"

definition dot_then_host :: "string \<Rightarrow> bool" where
  "dot_then_host t = (case after_prefix ''.'' t of None \<Rightarrow> False | Some t' \<Rightarrow> host_start t')"

definition dotted_url :: "string \<Rightarrow> bool" where
  "dotted_url s =
     (case after_scheme s of
        None \<Rightarrow> False
      | Some rest \<Rightarrow>
          (let n = length (takeWhile host_char rest)
           in 1 \<le> n \<and> dot_then_host (drop n rest)))"

definition optional_dot_url :: "string \<Rightarrow> bool" where
  "optional_dot_url s =
     (case after_scheme s of
        None \<Rightarrow> False
      | Some rest \<Rightarrow>
          (let n = length (takeWhile host_char rest)
           in 2 \<le> n \<or> (1 \<le> n \<and> dot_then_host (drop n rest))))"

definition localhost_url :: "string \<Rightarrow> bool" where
  "localhost_url s =
     (case after_scheme s of
        None \<Rightarrow> False
      | Some rest \<Rightarrow> after_prefix ''localhost'' rest \<noteq> None)"

subsection \<open>The three patterns, parsed\<close>

text \<open>
  The regexes that the parser reads from the pattern strings of the GUID and URL
  providers (the theorems \<open>parse_GUID\<close>, \<open>parse_URL_loose\<close> and \<open>parse_URL_strict\<close> below
  say so). A sequence of terms is right-nested and ends in \<open>Empty\<close>.
\<close>

definition seq :: "regex list \<Rightarrow> regex" where
  "seq ts = foldr Seq ts Empty"

definition word :: "string \<Rightarrow> regex" where
  "word w = seq (map Chr w)"

definition alnum_class :: regex where
  "alnum_class = Class [(CHR ''0'', CHR ''9''), (CHR ''a'', CHR ''z''), (CHR ''A'', CHR ''Z'')]"

definition host_class :: regex where
  "host_class = Class [(CHR ''0'', CHR ''9''), (CHR ''a'', CHR ''z''), (CHR ''A'', CHR ''Z''),
                       (CHR ''-'', CHR ''-'')]"

definition guid_regex :: regex where
  "guid_regex =
     seq [Bol, NegLookahead (word zero_guid),
          seq [repeat 8 alnum_class, Chr CHR ''-'', repeat 4 alnum_class, Chr CHR ''-'',
               repeat 4 alnum_class, Chr CHR ''-'', repeat 4 alnum_class, Chr CHR ''-'',
               repeat 12 alnum_class],
          Eol]"

definition scheme_terms :: "regex list" where
  "scheme_terms = [Chr CHR ''h'', Chr CHR ''t'', Chr CHR ''t'', Chr CHR ''p'', Opt (Chr CHR ''s''),
                   Chr CHR '':'', Chr CHR ''/'', Chr CHR ''/'']"

definition url_regex_loose :: regex where
  "url_regex_loose =
     seq (Bol # scheme_terms @
          [Seq host_class (Star host_class), Opt (Chr CHR ''.''),
           Seq host_class (Star host_class)])"

definition url_regex_strict :: regex where
  "url_regex_strict =
     Alt (seq (Bol # scheme_terms @
               [Seq host_class (Star host_class), Chr CHR ''.'',
                Seq host_class (Star host_class)]))
         (seq (scheme_terms @ map Chr ''localhost''))"

text \<open>The ranges of the class \<open>[0-9a-zA-Z-]\<close>.\<close>

definition host_ranges :: "(char \<times> char) list" where
  "host_ranges = [(CHR ''0'', CHR ''9''), (CHR ''a'', CHR ''z''), (CHR ''A'', CHR ''Z''),
                  (CHR ''-'', CHR ''-'')]"

text \<open>The terms of hyphen-separated groups of class characters, by the lengths of the groups.\<close>

fun group_terms :: "(char \<times> char) list \<Rightarrow> nat list \<Rightarrow> regex list" where
  "group_terms rs [] = []"
| "group_terms rs [n] = [repeat n (Class rs)]"
| "group_terms rs (n # m # ns) = repeat n (Class rs) # Chr CHR ''-'' # group_terms rs (m # ns)"

section \<open>Properties of the assertion functions\<close>

lemmas outcome_defs = it_def pm_test_def throw_def

lemma js_le_num [simp]: "js_le h (JNum a) (JNum b) = num_le a b"
  by (simp add: js_le_def)

lemma js_gt_num [simp]: "js_gt h (JNum a) (JNum b) = num_lt b a"
  by (simp add: js_gt_def)

lemma js_ge_num [simp]: "js_ge h (JNum a) (JNum b) = num_le b a"
  by (simp add: js_ge_def)

lemma num_le_not_lt: "num_le a b \<Longrightarrow> \<not> num_lt b a"
  by (simp add: num_le_def)

lemma number_ne_num: "number_ne h (Finite x) (JNum c) \<longleftrightarrow> c \<noteq> Finite x"
  by (auto simp: num_eq_def)

lemma example_renderings:
  "show_rat 500 = ''500''"
  "show_rat (3 / 2) = ''1.5''"
  "show_rat 5 = ''5''"
  by code_simp+

lemma abort_tests: "tests (abort_on_error_code c es st) = tests st"
  by (induction es) (auto simp: setNextRequest_null_def)

lemma abort_count:
  "nextRequestNull (abort_on_error_code c es st) =
     nextRequestNull st + (if c \<in> set es then 1 else 0)"
  by (induction es) (auto simp: setNextRequest_null_def)

lemma set_ERROR_CODES: "set ERROR_CODES = {500, 502, 503, 504, 401, 403}"
  by (auto simp: ERROR_CODES_def)

subsection \<open>One outcome or one error\<close>

lemma validation_error_strict [simp]:
  "validation_error (type_error f)" "validation_error (range_error f)"
  by (simp_all add: type_error_def range_error_def)












text \<open>
  When the schema is of Object kind and one of the two host calls throws, the schema
  check of part_000 ends with the error thrown and leaves the runner as it was.
\<close>

lemma checkJSONSchema_strict_host_error:
  "getType v = ''Object'' \<Longrightarrow> validated_body h r v = Inl e \<Longrightarrow>
     checkJSONSchema_strict h r v st = (Inl e, st)"
  by (auto simp: checkJSONSchema_strict_def validated_body_def throw_def split: sum.splits)





subsection \<open>The status-code check\<close>

lemma outside_no_bucket: "\<not> in_range 100 599 c \<Longrightarrow> hundred_bucket c = None"
  by (cases c) (auto simp: hundred_bucket_def in_range_def num_le_def)

lemma descriptionStatusCode_bucket:
  "descriptionStatusCode h (JNum c) = map_option label_strict (hundred_bucket c)"
  by (simp add: descriptionStatusCode_def hundred_bucket_def in_range_def)

lemma checkStatusCode_loose_bucket:
  \<open>checkStatusCode_loose h (JNum c) st =
     (case hundred_bucket c of
        Some b \<Rightarrow> it (label_loose b) [HaveStatus (JNum c)] st
      | None \<Rightarrow> throw (RangeError
          ''Parameter value must be an existing status code number for function "checkStatusCode(statusCode)"'') st)\<close>
  by (simp add: checkStatusCode_loose_def hundred_bucket_def in_range_def)

text \<open>
  Claim C2. For every number \<open>c\<close>: when \<open>c\<close> lies in one of the buckets 100-199, 200-299,
  300-399, 400-499, 500-599, the status-code check of either variant returns, having
  registered one test that carries the label of that bucket and whose callback asserts
  the status \<open>c\<close>, an assertion that holds exactly when the response's code is \<open>c\<close>.
  Otherwise, and so for every \<open>c\<close> outside [100,599], it raises a \<open>RangeError\<close> and
  registers nothing. (A number in a gap between two buckets, such as 199.5, is in no
  bucket.)
\<close>

theorem checkStatusCode_bucket_label:
  "(case hundred_bucket c of
      Some b \<Rightarrow>
        registers st \<lparr>description = label_loose b, callback = [HaveStatus (JNum c)]\<rparr>
          (checkStatusCode_loose h (JNum c) st) \<and>
        registers st \<lparr>description = label_strict b, callback = [HaveStatus (JNum c)]\<rparr>
          (checkStatusCode_strict h r (JNum c) st)
    | None \<Rightarrow>
        raises_RangeError st (checkStatusCode_loose h (JNum c) st) \<and>
        raises_RangeError st (checkStatusCode_strict h r (JNum c) st)) \<and>
   (\<not> in_range 100 599 c \<longrightarrow> hundred_bucket c = None) \<and>
   (holds h r (HaveStatus (JNum c)) \<longleftrightarrow> c = Finite (of_int (code r)))"
proof (intro conjI)
  show "case hundred_bucket c of
      Some b \<Rightarrow>
        registers st \<lparr>description = label_loose b, callback = [HaveStatus (JNum c)]\<rparr>
          (checkStatusCode_loose h (JNum c) st) \<and>
        registers st \<lparr>description = label_strict b, callback = [HaveStatus (JNum c)]\<rparr>
          (checkStatusCode_strict h r (JNum c) st)
    | None \<Rightarrow>
        raises_RangeError st (checkStatusCode_loose h (JNum c) st) \<and>
        raises_RangeError st (checkStatusCode_strict h r (JNum c) st)"
    by (cases "hundred_bucket c")
       (simp_all add: checkStatusCode_loose_bucket checkStatusCode_strict_def
          descriptionStatusCode_bucket registers_def raises_RangeError_def outcome_defs
          abort_tests range_error_def Let_def)
  show "\<not> in_range 100 599 c \<longrightarrow> hundred_bucket c = None"
    by (simp add: outside_no_bucket)
  show "holds h r (HaveStatus (JNum c)) \<longleftrightarrow> c = Finite (of_int (code r))"
    by (auto simp: num_eq_def)
qed

theorem checkStatusCode_bucket_label_witness:
  "registers fresh_runner
     \<lparr>description = ''should be a successful response'', callback = [HaveStatus (num 200)]\<rparr>
     (checkStatusCode_loose example_host (num 200) fresh_runner) \<and>
   registers fresh_runner
     \<lparr>description = ''Status Code (Success)'', callback = [HaveStatus (num 200)]\<rparr>
     (checkStatusCode_strict example_host (example_response 404) (num 200) fresh_runner) \<and>
   raises_RangeError fresh_runner (checkStatusCode_loose example_host (num 700) fresh_runner) \<and>
   raises_RangeError fresh_runner
     (checkStatusCode_strict example_host (example_response 404) (num 700) fresh_runner) \<and>
   raises_RangeError fresh_runner
     (checkStatusCode_strict example_host (example_response 404) (num (1995 / 10)) fresh_runner) \<and>
   \<not> holds example_host (example_response 404) (HaveStatus (num 200)) \<and>
   holds example_host (example_response 404) (HaveStatus (num 404))"
  using checkStatusCode_bucket_label [where c = "Finite 200" and st = fresh_runner
        and h = example_host and r = "example_response 404"]
    checkStatusCode_bucket_label [where c = "Finite (1995 / 10)" and st = fresh_runner
        and h = example_host and r = "example_response 404"]
    checkStatusCode_bucket_label [where c = "Finite 700" and st = fresh_runner
        and h = example_host and r = "example_response 404"]
    checkStatusCode_bucket_label [where c = "Finite 404" and h = example_host
        and r = "example_response 404"]
  by (simp add: hundred_bucket_def in_range_def num_le_def example_response_def)

lemma checkStatusCode_strict_aborts:
  "nextRequestNull (snd (checkStatusCode_strict h r (JNum c) st)) =
     nextRequestNull st +
       (if hundred_bucket c \<noteq> None \<and> c \<noteq> Finite (of_int (code r)) \<and>
           code r \<in> set ERROR_CODES
        then 1 else 0)"
proof (cases "hundred_bucket c")
  case None
  then show ?thesis
    by (simp add: checkStatusCode_strict_def descriptionStatusCode_bucket throw_def)
next
  case (Some b)
  then show ?thesis
    by (simp add: checkStatusCode_strict_def descriptionStatusCode_bucket pm_test_def Let_def
          number_ne_num abort_count del: number_ne.simps)
qed

lemma checkStatusCode_strict_type_error_no_abort:
  "getType v \<noteq> ''Number'' \<Longrightarrow>
     nextRequestNull (snd (checkStatusCode_strict h r v st)) = nextRequestNull st"
  by (simp add: checkStatusCode_strict_def throw_def)

lemma checkStatusCode_loose_never_aborts:
  "nextRequestNull (snd (checkStatusCode_loose h v st)) = nextRequestNull st"
  by (simp add: checkStatusCode_loose_def throw_def it_def)

text \<open>
  Claim C3, as stated, fails: the check validates the expected code first, and an
  expected code that lies in no bucket raises before the abort test is reached. With the
  expected code 700 and the actual code 500, the call raises a \<open>RangeError\<close> and the abort
  signal does not fire.
\<close>

theorem checkStatusCode_abort_signal_counterexample:
  "code (example_response 500) \<in> {500, 502, 503, 504, 401, 403} \<and>
   \<not> strict_eq (num 700) (num (of_int (code (example_response 500)))) \<and>
   checkStatusCode_strict example_host (example_response 500) (num 700) fresh_runner =
     (Inl (range_error ''checkStatusCode''), fresh_runner) \<and>
   nextRequestNull (snd (checkStatusCode_strict example_host (example_response 500) (num 700)
      fresh_runner)) = 0"
  by (simp add: checkStatusCode_strict_def descriptionStatusCode_def num_le_def throw_def
        example_response_def fresh_runner_def num_eq_def)

text \<open>
  Claim C3, amended. In the variant that has the abort signal (part_000), one call of the
  status-code check with a number \<open>c\<close> calls \<open>postman.setNextRequest(null)\<close> exactly once
  when \<open>c\<close> lies in one of the five buckets (so the call raises nothing), \<open>c\<close> differs from
  the actual code and the actual code is one of 500, 502, 503, 504, 401, 403; in every
  other case, and for every argument that is not a number, it does not call it. The
  check of the other variant never calls it.
\<close>

theorem checkStatusCode_abort_signal:
  "nextRequestNull (snd (checkStatusCode_strict h r (JNum c) st)) =
     nextRequestNull st +
       (if hundred_bucket c \<noteq> None \<and> c \<noteq> Finite (of_int (code r)) \<and>
           code r \<in> {500, 502, 503, 504, 401, 403}
        then 1 else 0) \<and>
   (getType v \<noteq> ''Number'' \<longrightarrow>
      nextRequestNull (snd (checkStatusCode_strict h r v st)) = nextRequestNull st) \<and>
   nextRequestNull (snd (checkStatusCode_loose h v st)) = nextRequestNull st"
  using checkStatusCode_strict_aborts [of h r c st]
    checkStatusCode_strict_type_error_no_abort [of v h r st]
    checkStatusCode_loose_never_aborts [of h v st]
  unfolding set_ERROR_CODES by blast

theorem checkStatusCode_abort_signal_witness:
  "nextRequestNull (snd (checkStatusCode_strict example_host (example_response 503) (num 200)
      fresh_runner)) = 1 \<and>
   nextRequestNull (snd (checkStatusCode_strict example_host (example_response 503) (num 503)
      fresh_runner)) = 0 \<and>
   nextRequestNull (snd (checkStatusCode_strict example_host (example_response 501) (num 200)
      fresh_runner)) = 0 \<and>
   nextRequestNull (snd (checkStatusCode_strict example_host (example_response 503)
      (JStr ''200'') fresh_runner)) = 0"
  using checkStatusCode_abort_signal [where c = "Finite 200" and r = "example_response 503"
        and st = fresh_runner and h = example_host and v = "JStr ''200''"]
    checkStatusCode_abort_signal [where c = "Finite 503" and r = "example_response 503"
        and st = fresh_runner and h = example_host]
    checkStatusCode_abort_signal [where c = "Finite 200" and r = "example_response 501"
        and st = fresh_runner and h = example_host]
  by (simp add: hundred_bucket_def in_range_def num_le_def example_response_def
        fresh_runner_def)

subsection \<open>Validation of the argument's kind\<close>

text \<open>
  Claim C4, as stated, fails in the variant of src/Commontests.js: its content-type check
  has no validation and registers a test for the number 5, and its time check raises a
  \<open>RangeError\<close>, not a \<open>TypeError\<close>, for \<open>null\<close>.
\<close>

theorem assertion_function_type_error_counterexample:
  \<open>getType (num 5) \<noteq> ''String'' \<and>
   checkContentType_loose example_host (num 5) fresh_runner =
     (Inr (), \<lparr>tests = [\<lparr>description = ''should be of type "5"'',
                           callback = [TypeEqual (num 5)]\<rparr>],
              nextRequestNull = 0\<rparr>) \<and>
   getType JNull \<noteq> ''Number'' \<and>
   raises_RangeError fresh_runner (checkTime_loose example_host JNull fresh_runner) \<and>
   \<not> raises_TypeError fresh_runner (checkTime_loose example_host JNull fresh_runner)\<close>
  by (simp add: checkContentType_loose_def checkTime_loose_def it_def throw_def js_gt_def
        raises_RangeError_def raises_TypeError_def fresh_runner_def example_host_def
        example_renderings)

text \<open>
  Claim C4, amended. In the variant of part_000 each of the five assertion functions
  raises a \<open>TypeError\<close>, registering nothing and signalling nothing, for every argument
  whose kind (by \<open>getType\<close>) is not the documented one: Number for the status code and
  the time, String for the content type and the location, Object for the schema. In the
  variant of src/Commontests.js only the schema check validates the kind of its
  argument: it raises a \<open>TypeError\<close> for every argument whose \<open>typeof\<close> is not
  \<open>object\<close>.
\<close>

theorem assertion_function_type_error:
  "(getType v \<noteq> ''Number'' \<longrightarrow>
      raises_TypeError st (checkStatusCode_strict h r v st) \<and>
      raises_TypeError st (checkTime_strict h v st)) \<and>
   (getType v \<noteq> ''String'' \<longrightarrow>
      raises_TypeError st (checkContentType_strict v st) \<and>
      raises_TypeError st (checkLocation_strict v st)) \<and>
   (getType v \<noteq> ''Object'' \<longrightarrow> raises_TypeError st (checkJSONSchema_strict h r v st)) \<and>
   (typeof v \<noteq> ''object'' \<longrightarrow> raises_TypeError st (checkJSONSchema_loose v st))"
  by (simp add: checkStatusCode_strict_def checkTime_strict_def checkContentType_strict_def
        checkLocation_strict_def checkJSONSchema_strict_def checkJSONSchema_loose_def
        raises_TypeError_def throw_def type_error_def)

theorem assertion_function_type_error_witness:
  "raises_TypeError fresh_runner
     (checkStatusCode_strict example_host (example_response 200) (JStr ''200'') fresh_runner) \<and>
   raises_TypeError fresh_runner (checkTime_strict example_host (JStr ''500'') fresh_runner) \<and>
   raises_TypeError fresh_runner (checkContentType_strict (num 5) fresh_runner) \<and>
   raises_TypeError fresh_runner (checkLocation_strict JNull fresh_runner) \<and>
   raises_TypeError fresh_runner
     (checkJSONSchema_strict example_host (example_response 200) (JArr 1 []) fresh_runner) \<and>
   raises_TypeError fresh_runner (checkJSONSchema_loose (JStr ''{}'') fresh_runner)"
  using assertion_function_type_error [where v = "JStr ''200''" and st = fresh_runner
        and h = example_host and r = "example_response 200"]
    assertion_function_type_error [where v = "JStr ''500''" and st = fresh_runner
        and h = example_host]
    assertion_function_type_error [where v = "num 5" and st = fresh_runner]
    assertion_function_type_error [where v = JNull and st = fresh_runner]
    assertion_function_type_error [where v = "JArr 1 []" and st = fresh_runner
        and h = example_host and r = "example_response 200"]
    assertion_function_type_error [where v = "JStr ''{}''" and st = fresh_runner]
  by simp

subsection \<open>The time check\<close>

text \<open>
  Claim C8. For every number \<open>t\<close>: when \<open>t <= 0\<close> (and also when \<open>t\<close> is \<open>NaN\<close>) the time
  check of either variant raises a \<open>RangeError\<close> and registers nothing; when \<open>t > 0\<close> it
  returns, having registered exactly one test, whose description carries the converted
  time and whose callback asserts that the response time is below \<open>t\<close>, an assertion that
  holds exactly when the elapsed time is strictly less than \<open>t\<close>.
\<close>

theorem checkTime_positive:
  "(num_lt (Finite 0) t \<longrightarrow>
      registers st
        \<lparr>description = ''should respond within '' @
           (if num_le (Finite 1000) t then NumberToString h (num_div t 1000) @ ''s''
            else NumberToString h t @ ''ms''),
         callback = [TimeBelow (JNum t)]\<rparr>
        (checkTime_loose h (JNum t) st) \<and>
      registers st
        \<lparr>description = ''Response Time < '' @
           (if num_le (Finite 1000) t then NumberToString h (num_div t 1000) @ ''s''
            else NumberToString h t @ ''ms''),
         callback = [TimeBelow (JNum t)]\<rparr>
        (checkTime_strict h (JNum t) st)) \<and>
   (num_le t (Finite 0) \<or> t = NaN \<longrightarrow>
      raises_RangeError st (checkTime_loose h (JNum t) st) \<and>
      raises_RangeError st (checkTime_strict h (JNum t) st)) \<and>
   (holds h r (TimeBelow (JNum t)) \<longleftrightarrow> num_lt (Finite (responseTime r)) t)"
  by (auto simp: checkTime_loose_def checkTime_strict_def convertTime_loose_def
        convertTime_strict_def registers_def raises_RangeError_def outcome_defs
        range_error_def dest: num_le_not_lt)

theorem checkTime_positive_witness:
  "registers fresh_runner
     \<lparr>description = ''should respond within 500ms'', callback = [TimeBelow (num 500)]\<rparr>
     (checkTime_loose example_host (num 500) fresh_runner) \<and>
   registers fresh_runner
     \<lparr>description = ''Response Time < 1.5s'', callback = [TimeBelow (num 1500)]\<rparr>
     (checkTime_strict example_host (num 1500) fresh_runner) \<and>
   raises_RangeError fresh_runner (checkTime_loose example_host (num 0) fresh_runner) \<and>
   raises_RangeError fresh_runner (checkTime_strict example_host (num 0) fresh_runner) \<and>
   raises_RangeError fresh_runner (checkTime_loose example_host (num (- 5)) fresh_runner) \<and>
   raises_RangeError fresh_runner (checkTime_strict example_host (num (- 5)) fresh_runner) \<and>
   holds example_host (example_response 200) (TimeBelow (num 500))"
  using checkTime_positive [where t = "Finite 500" and st = fresh_runner and h = example_host
        and r = "example_response 200"]
    checkTime_positive [where t = "Finite 1500" and st = fresh_runner and h = example_host]
    checkTime_positive [where t = "Finite 0" and st = fresh_runner and h = example_host]
    checkTime_positive [where t = "Finite (- 5)" and st = fresh_runner and h = example_host]
  by (simp add: num_le_def example_response_def example_host_def example_renderings)

section \<open>Properties of testCommon\<close>

lemma then_do_Inr [simp]: "then_do (Inr u, st) f = f st"
  by (simp add: then_do_def)

lemma then_do_Inl [simp]: "then_do (Inl e, st) f = (Inl e, st)"
  by (simp add: then_do_def)

lemma then_do_unit [simp]: "then_do res (\<lambda>st. (Inr (), st)) = res"
  by (cases res) (auto simp: then_do_def split: sum.splits)

lemma run_plan_append:
  "run_plan run (xs @ ys) st = then_do (run_plan run xs st) (run_plan run ys)"
  by (induction xs arbitrary: st) (auto simp: then_do_def split: sum.splits prod.splits)

lemma run_plan_supplied:
  "run_plan run (supplied mk v) st = when_truthy v (run (mk v)) st"
  by (cases "run (mk v) st") (auto simp: supplied_def when_truthy_def split: sum.splits)

lemma run_plan_append_fun:
  "run_plan run (xs @ ys) = (\<lambda>st. then_do (run_plan run xs st) (run_plan run ys))"
  by (rule ext) (rule run_plan_append)

lemma run_plan_supplied_fun:
  "run_plan run (supplied mk v) = when_truthy v (run (mk v))"
  by (rule ext) (rule run_plan_supplied)

lemma run_plan_Nil_fun: "run_plan run [] = (\<lambda>st. (Inr (), st))"
  by (rule ext) simp

lemma logResponseBody_loose_returns: "fst (logResponseBody_loose r st) = Inr ()"
  by (simp add: logResponseBody_loose_def when_truthy_def it_def)

lemma logResponseBody_strict_returns: "fst (logResponseBody_strict r st) = Inr ()"
  by (simp add: logResponseBody_strict_def when_truthy_def pm_test_def Let_def)

lemma then_do_returns: "fst res = Inr () \<Longrightarrow> then_do res f = f (snd res)"
  by (simp add: then_do_def)

lemma testCommon_loose_plan:
  "testCommon_loose h r sc ct js loc st =
     run_plan (run_check_loose h) (testCommon_plan True sc ct js loc)
       (snd (logResponseBody_loose r st))"
  by (simp add: testCommon_loose_def testCommon_plan_def run_plan_append_fun
        run_plan_supplied_fun then_do_returns [OF logResponseBody_loose_returns])

lemma testCommon_strict_plan:
  "testCommon_strict h r sc ct js loc st =
     run_plan (run_check_strict h r) (testCommon_plan (status_matches r sc) sc ct js loc)
       (snd (logResponseBody_strict r st))"
  by (simp add: testCommon_strict_def testCommon_plan_def run_plan_append_fun
        run_plan_supplied_fun run_plan_Nil_fun status_matches_def
        then_do_returns [OF logResponseBody_strict_returns])

lemma testCommon_plan_members:
  "StatusCodeCheck sc \<in> set (testCommon_plan g sc ct js loc) \<longleftrightarrow> truthy sc"
  "ContentTypeCheck ct \<in> set (testCommon_plan g sc ct js loc) \<longleftrightarrow> g \<and> truthy ct"
  "JSONSchemaCheck js \<in> set (testCommon_plan g sc ct js loc) \<longleftrightarrow> g \<and> truthy js"
  "LocationCheck loc \<in> set (testCommon_plan g sc ct js loc) \<longleftrightarrow> g \<and> truthy loc"
  by (auto simp: testCommon_plan_def supplied_def)

text \<open>
  Claim C5. After logging the response body (which never raises), \<open>testCommon\<close> runs a
  plan of checks in order, a raised error ending the call. In the looser variant the
  plan holds the status-code check and the content-type, JSON-schema and Location
  checks, each exactly when its argument is supplied (truthy). In the stricter variant
  the plan holds the status-code check exactly when \<open>statusCode\<close> is truthy, and each of
  the other three exactly when its argument is truthy and the actual response status
  equals the expected \<open>statusCode\<close>.
\<close>

theorem testCommon_runs_supplied_checks:
  "testCommon_loose h r sc ct js loc st =
     run_plan (run_check_loose h) (testCommon_plan True sc ct js loc)
       (snd (logResponseBody_loose r st)) \<and>
   testCommon_strict h r sc ct js loc st =
     run_plan (run_check_strict h r) (testCommon_plan (status_matches r sc) sc ct js loc)
       (snd (logResponseBody_strict r st)) \<and>
   (StatusCodeCheck sc \<in> set (testCommon_plan g sc ct js loc) \<longleftrightarrow> truthy sc) \<and>
   (ContentTypeCheck ct \<in> set (testCommon_plan g sc ct js loc) \<longleftrightarrow> g \<and> truthy ct) \<and>
   (JSONSchemaCheck js \<in> set (testCommon_plan g sc ct js loc) \<longleftrightarrow> g \<and> truthy js) \<and>
   (LocationCheck loc \<in> set (testCommon_plan g sc ct js loc) \<longleftrightarrow> g \<and> truthy loc) \<and>
   (status_matches r sc \<longleftrightarrow> sc = num (of_int (code r)))"
proof -
  have "status_matches r sc \<longleftrightarrow> sc = num (of_int (code r))"
    by (cases sc) (auto simp: status_matches_def num_eq_def)
  then show ?thesis
    by (simp only: testCommon_loose_plan testCommon_strict_plan testCommon_plan_members
          simp_thms)
qed

theorem testCommon_runs_supplied_checks_witness:
  \<open>map description (tests (snd (testCommon_strict example_host (example_response 404)
      (num 200) (JStr ''application/json'') JUndefined (JStr ''/items/1'') fresh_runner))) =
     [''Response Body: {}'', ''Status Code (Success)''] \<and>
   map description (tests (snd (testCommon_strict example_host (example_response 200)
      (num 200) (JStr ''application/json'') JUndefined (JStr ''/items/1'') fresh_runner))) =
     [''Response Body: {}'', ''Status Code (Success)'', ''Content Type'', ''Location''] \<and>
   map description (tests (snd (testCommon_loose example_host (example_response 404)
      (num 200) (JStr ''application/json'') JUndefined (JStr ''/items/1'') fresh_runner))) =
     [''response body: {}'', ''should be a successful response'',
      ''should be of type "application/json"'',
      ''should return the location "/items/1"'']\<close>
  using testCommon_runs_supplied_checks [where h = example_host and r = "example_response 404"
        and sc = "num 200" and ct = "JStr ''application/json''" and js = JUndefined
        and loc = "JStr ''/items/1''" and st = fresh_runner]
    testCommon_runs_supplied_checks [where h = example_host and r = "example_response 200"
        and sc = "num 200" and ct = "JStr ''application/json''" and js = JUndefined
        and loc = "JStr ''/items/1''" and st = fresh_runner]
  by (simp add: testCommon_plan_def supplied_def status_matches_def num_eq_def
        logResponseBody_loose_def logResponseBody_strict_def when_truthy_def
        checkStatusCode_loose_def checkStatusCode_strict_def descriptionStatusCode_def
        checkContentType_loose_def checkContentType_strict_def checkLocation_loose_def
        checkLocation_strict_def num_le_def outcome_defs example_response_def
        fresh_runner_def ERROR_CODES_def setNextRequest_null_def Let_def)

section \<open>Properties of getIndexObjectInArray\<close>

lemma item_matches_Object:
  "getType item = ''Object'' \<Longrightarrow> item_matches h p v item = Inr (property_equals h p v item)"
  by (cases item) (auto simp: item_matches_def property_equals_def)

lemma findIndex_from_pure:
  assumes "list_all (\<lambda>x. f x = Inr (P x)) xs"
  shows "findIndex_from f xs i =
     Inr (if list_ex P xs then i + int (length (takeWhile (\<lambda>x. \<not> P x) xs)) else - 1)"
  using assms by (induction xs arbitrary: i) auto

lemma takeWhile_first:
  "list_ex P xs \<Longrightarrow>
     length (takeWhile (\<lambda>x. \<not> P x) xs) < length xs \<and>
     P (xs ! length (takeWhile (\<lambda>x. \<not> P x) xs)) \<and>
     list_all (\<lambda>x. \<not> P x) (take (length (takeWhile (\<lambda>x. \<not> P x) xs)) xs)"
  by (induction xs) auto

lemma first_match_takeWhile:
  "first_match_or_minus_one P xs
     (if list_ex P xs then int (length (takeWhile (\<lambda>x. \<not> P x) xs)) else - 1)"
  using takeWhile_first [of P xs] by (simp add: first_match_or_minus_one_def)

lemma getIndex_strict_Object:
  assumes "list_all (\<lambda>item. getType item = ''Object'') items"
  shows "getIndexObjectInArray_strict h (JArr a items) (JStr p) v =
     Inr (if list_ex (property_equals h p v) items
          then int (length (takeWhile (\<lambda>x. \<not> property_equals h p v x) items)) else - 1)"
proof -
  from assms have "list_all (\<lambda>x. item_matches h p v x = Inr (property_equals h p v x)) items"
    by (simp add: list_all_iff item_matches_Object)
  from findIndex_from_pure [OF this, of 0] assms show ?thesis
    by (simp add: getIndexObjectInArray_strict_def findIndex_def)
qed

lemma Object_typeof: "getType item = ''Object'' \<Longrightarrow> typeof item = ''object''"
  by (cases item) auto

lemma getIndex_loose_Object:
  assumes "list_all (\<lambda>item. getType item = ''Object'') items"
  shows "getIndexObjectInArray_loose h (JArr a items) (JStr p) v =
     Inr (if list_ex (property_equals h p v) items
          then int (length (takeWhile (\<lambda>x. \<not> property_equals h p v x) items)) else - 1)"
proof -
  from assms have "list_all (\<lambda>x. item_matches h p v x = Inr (property_equals h p v x)) items"
    by (simp add: list_all_iff item_matches_Object)
  moreover from assms have "list_all (\<lambda>item. typeof item = ''object'') items"
    by (simp add: list_all_iff Object_typeof)
  ultimately show ?thesis
    using findIndex_from_pure [of "item_matches h p v" "property_equals h p v" items 0]
    by (simp add: getIndexObjectInArray_loose_def findIndex_def)
qed

lemma getIndex_strict_TypeError:
  "getType array \<noteq> ''Array'' \<or> \<not> list_all (\<lambda>item. getType item = ''Object'') (elements array) \<or>
   getType property \<noteq> ''String'' \<Longrightarrow>
   getIndexObjectInArray_strict h array property v = Inl (type_error ''getIndexObjectInArray'')"
  by (cases array) (auto simp: getIndexObjectInArray_strict_def elements_def)

text \<open>
  The variant of src/Commontests.js raises a \<open>TypeError\<close> for a first argument that is
  not an array, an element whose \<open>typeof\<close> is not \<open>object\<close>, and a property name whose
  \<open>typeof\<close> is not \<open>string\<close>.
\<close>

lemma getIndex_loose_TypeError:
  "getType array \<noteq> ''Array'' \<or> \<not> list_all (\<lambda>item. typeof item = ''object'') (elements array) \<or>
   typeof property \<noteq> ''string'' \<Longrightarrow>
   is_TypeError (getIndexObjectInArray_loose h array property v)"
  by (cases array) (auto simp: getIndexObjectInArray_loose_def elements_def is_TypeError_def)

text \<open>
  The variant of part_000 does what claim C7 says. For every array whose elements are
  all of Object kind and every string property name it returns the index of the first
  element whose property of that name equals the given value, or \<open>-1\<close> when no element
  matches; for a first argument that is not an array, an array with an element that is
  not of Object kind (\<open>null\<close> included), or a property name that is not a string, it
  raises a \<open>TypeError\<close>. The variant of src/Commontests.js returns the same index on every
  such array.
\<close>

lemma getIndexObjectInArray_strict_first_match:
  "(list_all (\<lambda>item. getType item = ''Object'') items \<longrightarrow>
      getIndexObjectInArray_strict h (JArr a items) (JStr p) v =
        Inr (first_index (property_equals h p v) items) \<and>
      getIndexObjectInArray_loose h (JArr a items) (JStr p) v =
        Inr (first_index (property_equals h p v) items)) \<and>
   first_match_or_minus_one (property_equals h p v) items
     (first_index (property_equals h p v) items) \<and>
   (getType array \<noteq> ''Array'' \<or>
    \<not> list_all (\<lambda>item. getType item = ''Object'') (elements array) \<or>
    getType property \<noteq> ''String'' \<longrightarrow>
      getIndexObjectInArray_strict h array property v =
        Inl (type_error ''getIndexObjectInArray''))"
  using getIndex_strict_Object [of items h a p v] getIndex_loose_Object [of items h a p v]
    first_match_takeWhile [of "property_equals h p v" items]
    getIndex_strict_TypeError [of array "property" h v]
  unfolding first_index_def
  by (intro conjI impI) simp_all

text \<open>
  The examples of the specification, and a property that is inherited: an empty object
  has no \<open>toString\<close> of its own, but reading it gives the function of \<open>Object.prototype\<close>,
  so the value \<open>undefined\<close> is not found under that name and that function is.
\<close>

lemma getIndexObjectInArray_examples:
  "getIndexObjectInArray_strict example_host
     (JArr 0 [JObj 1 [(''id'', num 1)], JObj 2 [(''id'', num 2)]]) (JStr ''id'') (num 2) = Inr 1 \<and>
   getIndexObjectInArray_loose example_host
     (JArr 0 [JObj 1 [(''id'', num 1)], JObj 2 [(''id'', num 2)]]) (JStr ''id'') (num 2) = Inr 1 \<and>
   getIndexObjectInArray_strict example_host
     (JArr 0 [JObj 1 [(''id'', num 1)]]) (JStr ''id'') (num 9) = Inr (- 1) \<and>
   getIndexObjectInArray_loose example_host
     (JArr 0 [JObj 1 [(''id'', num 1)]]) (JStr ''id'') (num 9) = Inr (- 1) \<and>
   getIndexObjectInArray_strict example_host (JObj 0 [(''id'', num 1)]) (JStr ''id'') (num 1) =
     Inl (type_error ''getIndexObjectInArray'') \<and>
   getIndexObjectInArray_strict example_host (JArr 0 [JObj 1 [(''id'', num 1)]]) (num 0) (num 1) =
     Inl (type_error ''getIndexObjectInArray'') \<and>
   getIndexObjectInArray_strict example_host (JArr 0 [JObj 1 []]) (JStr ''toString'') JUndefined =
     Inr (- 1) \<and>
   getIndexObjectInArray_loose example_host (JArr 0 [JObj 1 []]) (JStr ''toString'') JUndefined =
     Inr (- 1) \<and>
   getIndexObjectInArray_strict example_host (JArr 0 [JObj 1 []]) (JStr ''toString'')
     (native_function 901 ''toString'' 0) = Inr 0"
  by (simp add: getIndexObjectInArray_strict_def getIndexObjectInArray_loose_def findIndex_def
        item_matches_def num_eq_def from_prototype_def example_host_def example_inherited_def
        Object_prototype_def native_function_def)

text \<open>
  Claim C7 fails in the variant of src/Commontests.js, whose element check is
  \<open>typeof item === 'object'\<close>: \<open>null\<close> is not of Object kind, yet its \<open>typeof\<close> is
  \<open>object\<close>. For the array \<open>[{id: 2}, null]\<close>, the property \<open>"id"\<close> and the value 2 the
  check passes, the search stops at the first element and the call returns 0, where the
  claim, the function's own documentation (an array of objects) and the variant of
  part_000 have a \<open>TypeError\<close>.
\<close>

theorem getIndexObjectInArray_null_element:
  "getType JNull \<noteq> ''Object'' \<and>
   typeof JNull = ''object'' \<and>
   getIndexObjectInArray_loose example_host (JArr 0 [JObj 1 [(''id'', num 2)], JNull])
     (JStr ''id'') (num 2) = Inr 0 \<and>
   getIndexObjectInArray_strict example_host (JArr 0 [JObj 1 [(''id'', num 2)], JNull])
     (JStr ''id'') (num 2) = Inl (type_error ''getIndexObjectInArray'')"
  by (simp add: getIndexObjectInArray_loose_def getIndexObjectInArray_strict_def findIndex_def
        item_matches_def num_eq_def)
section \<open>Properties of getSchemaHAL\<close>

lemmas literal_defs = object_literal_def array_literal_def existing_def default_empty_object_def

lemma getSchemaHAL_loose_items:
  "path items_path (getSchemaHAL_loose a s) = (if s = JUndefined then JObj a [] else s)"
  by (simp add: getSchemaHAL_loose_def literal_defs items_path_def own_property_def)

lemma getSchemaHAL_loose_envelope: "hal_envelope (getSchemaHAL_loose a s)"
  by (simp add: getSchemaHAL_loose_def literal_defs hal_envelope_def required_keys_def
        elements_def own_property_def)

lemma getSchemaHAL_strict_Object:
  "getType s = ''Object'' \<Longrightarrow> returns_envelope_with_items s (getSchemaHAL_strict a s)"
  by (auto simp: getSchemaHAL_strict_def literal_defs hal_envelope_def required_keys_def
        elements_def own_property_def items_path_def returns_envelope_with_items_def)

lemma getSchemaHAL_strict_default:
  "returns_envelope_with_items (JObj a []) (getSchemaHAL_strict a JUndefined)"
  by (simp add: getSchemaHAL_strict_def literal_defs hal_envelope_def required_keys_def
        elements_def own_property_def items_path_def returns_envelope_with_items_def)

lemma getSchemaHAL_strict_TypeError:
  "s \<noteq> JUndefined \<Longrightarrow> getType s \<noteq> ''Object'' \<Longrightarrow>
     getSchemaHAL_strict a s = Inl (type_error ''getSchemaHAL'')"
  by (simp add: getSchemaHAL_strict_def default_empty_object_def)

text \<open>
  Claim C6, as stated, fails in the variant of src/Commontests.js, which does not
  validate its argument: for the number 5, which is not object-shaped, it returns the
  envelope schema with 5 as the items schema and raises nothing.
\<close>

theorem getSchemaHAL_item_schema_counterexample:
  "getType (num 5) \<noteq> ''Object'' \<and> typeof (num 5) \<noteq> ''object'' \<and>
   returns_envelope_with_items (num 5) (Inr (getSchemaHAL_loose 0 (num 5)))"
  by (simp add: getSchemaHAL_loose_def literal_defs hal_envelope_def required_keys_def
        elements_def own_property_def items_path_def returns_envelope_with_items_def)

text \<open>
  Claim C6, amended. In the variant of part_000, \<open>getSchemaHAL(s)\<close> raises a \<open>TypeError\<close>
  when \<open>s\<close> is given (not \<open>undefined\<close>) and is not of Object kind; for an \<open>s\<close> of Object kind
  it returns an object schema that requires the top-level keys \<open>_links\<close>, \<open>_embedded\<close> and
  \<open>_page\<close> and whose \<open>_embedded.properties.resourceList.items\<close> is \<open>s\<close> itself; with no
  argument (or \<open>undefined\<close>) the items schema is a new empty object. The variant of
  src/Commontests.js never raises: it returns such a schema for every argument, with
  the argument itself as the items schema, and a new empty object when there is none.
\<close>

theorem getSchemaHAL_item_schema:
  "(getType s = ''Object'' \<longrightarrow> returns_envelope_with_items s (getSchemaHAL_strict a s)) \<and>
   returns_envelope_with_items (JObj a []) (getSchemaHAL_strict a JUndefined) \<and>
   (s \<noteq> JUndefined \<and> getType s \<noteq> ''Object'' \<longrightarrow>
      getSchemaHAL_strict a s = Inl (type_error ''getSchemaHAL'')) \<and>
   returns_envelope_with_items (if s = JUndefined then JObj a [] else s)
     (Inr (getSchemaHAL_loose a s))"
  using getSchemaHAL_strict_Object [of s a] getSchemaHAL_strict_default [of a]
    getSchemaHAL_strict_TypeError [of s a] getSchemaHAL_loose_envelope [of a s]
    getSchemaHAL_loose_items [of a s]
  by (simp add: returns_envelope_with_items_def)

theorem getSchemaHAL_item_schema_witness:
  "returns_envelope_with_items
     (JObj 7 [(''type'', JStr ''object''), (''required'', JArr 8 [JStr ''id''])])
     (getSchemaHAL_strict 0
        (JObj 7 [(''type'', JStr ''object''), (''required'', JArr 8 [JStr ''id''])])) \<and>
   getSchemaHAL_strict 0 (JArr 7 []) = Inl (type_error ''getSchemaHAL'') \<and>
   getSchemaHAL_strict 0 JNull = Inl (type_error ''getSchemaHAL'') \<and>
   returns_envelope_with_items (JObj 0 []) (getSchemaHAL_strict 0 JUndefined) \<and>
   returns_envelope_with_items (JObj 0 []) (Inr (getSchemaHAL_loose 0 JUndefined))"
  using getSchemaHAL_item_schema [where a = 0
        and s = "JObj 7 [(''type'', JStr ''object''), (''required'', JArr 8 [JStr ''id''])]"]
    getSchemaHAL_item_schema [where a = 0 and s = "JArr 7 []"]
    getSchemaHAL_item_schema [where a = 0 and s = JNull]
    getSchemaHAL_item_schema [where a = 0 and s = JUndefined]
  by simp

section \<open>Properties of the patterns\<close>

text \<open>The equation of \<open>*\<close> unfolds itself; it is applied by hand.\<close>

declare ends.simps(11) [simp del]

subsection \<open>The patterns parse\<close>

lemma parse_GUID: "parse_regex getRegexGUID = Some guid_regex"
  by code_simp

lemma parse_URL_loose: "parse_regex getRegexURL_loose = Some url_regex_loose"
  by code_simp

lemma parse_URL_strict: "parse_regex getRegexURL_strict = Some url_regex_strict"
  by code_simp

subsection \<open>Matching sequences, words and groups\<close>

lemma ends_seq_Nil [simp]: "ends (seq []) p = [p]"
  by (simp add: seq_def)

lemma ends_seq_Cons: "ends (seq (t # ts)) p = concat (map (ends (seq ts)) (ends t p))"
  by (simp add: seq_def)

lemma consume_Nil [simp]: "consume P (b, []) = []"
  by (simp add: consume_def)

lemma consume_Cons [simp]: "consume P (b, c # cs) = (if P c then [(False, cs)] else [])"
  by (simp add: consume_def)

lemma ends_word:
  "ends (word w) (b, s) =
     (if length w \<le> length s \<and> take (length w) s = w then [(b \<and> w = [], drop (length w) s)] else [])"
proof (induction w arbitrary: b s)
  case Nil
  then show ?case by (simp add: word_def)
next
  case (Cons c w)
  have IH: "\<And>b s. ends (seq (map Chr w)) (b, s) =
     (if length w \<le> length s \<and> take (length w) s = w then [(b \<and> w = [], drop (length w) s)] else [])"
    using Cons.IH by (simp add: word_def)
  show ?case
    by (cases s) (simp_all add: word_def IH ends_seq_Cons)
qed

lemma ends_repeat_Class:
  "ends (repeat n (Class rs)) (b, s) =
     (if n \<le> length s \<and> list_all (in_class rs) (take n s) then [(b \<and> n = 0, drop n s)] else [])"
proof (induction n arbitrary: b s)
  case 0
  then show ?case by simp
next
  case (Suc n)
  show ?case
    by (cases s) (simp_all add: Suc.IH)
qed

lemma ends_group_hyphen:
  "ends (seq (repeat n (Class rs) # Chr CHR ''-'' # ts)) (b, s) =
     (if n < length s \<and> list_all (in_class rs) (take n s) \<and> s ! n = CHR ''-''
      then ends (seq ts) (False, drop (Suc n) s) else [])"
proof (cases "n < length s")
  case True
  then have "drop n s = s ! n # drop (Suc n) s"
    by (simp add: Cons_nth_drop_Suc)
  with True show ?thesis
    by (simp add: ends_repeat_Class ends_seq_Cons)
next
  case False
  then show ?thesis
    by (simp add: ends_repeat_Class ends_seq_Cons)
qed

lemma regex_test_Bol:
  "regex_test (seq (Bol # ts)) s = (ends (seq ts) (True, s) \<noteq> [])"
  by (auto simp: regex_test_def list_ex_iff ends_seq_Cons)

lemma if_nonempty: "((if c then xs else []) \<noteq> []) = (c \<and> xs \<noteq> [])"
  by (cases c) simp_all

lemma concat_map_concat:
  "concat (map f (concat xss)) = concat (map (\<lambda>xs. concat (map f xs)) xss)"
  by (induction xss) simp_all

lemma ends_seq_append:
  "ends (seq (xs @ ys)) p = concat (map (ends (seq ys)) (ends (seq xs) p))"
proof (induction xs arbitrary: p)
  case Nil
  then show ?case by simp
next
  case (Cons t xs)
  have "ends (seq (xs @ ys)) = (\<lambda>q. concat (map (ends (seq ys)) (ends (seq xs) q)))"
    by (rule ext) (rule Cons.IH)
  then show ?case
    by (simp add: concat_map_concat comp_def ends_seq_Cons)
qed

lemma ends_seq_nested: "ends (seq (seq xs # ys)) p = ends (seq (xs @ ys)) p"
  by (simp add: ends_seq_append ends_seq_Cons)

lemma ends_seq_NegLookahead:
  "ends (seq (NegLookahead r # ts)) p = (if ends r p = [] then ends (seq ts) p else [])"
  by (simp add: ends_seq_Cons)

lemma ends_groups_Eol:
  "ns \<noteq> [] \<Longrightarrow>
     ends (seq (group_terms rs ns @ [Eol])) (b, s) \<noteq> [] \<longleftrightarrow> hyphenated (in_class rs) ns s"
proof (induction "in_class rs" ns s arbitrary: b rule: hyphenated.induct)
  case (1 s)
  then show ?case by simp
next
  case (2 n s)
  show ?case
    by (auto simp: ends_repeat_Class ends_seq_Cons)
next
  case (3 n m ns s)
  have H: "ends (seq (group_terms rs (n # m # ns) @ [Eol])) (b, s) =
     (if n < length s \<and> list_all (in_class rs) (take n s) \<and> s ! n = CHR ''-''
      then ends (seq (group_terms rs (m # ns) @ [Eol])) (False, drop (Suc n) s) else [])"
    using ends_group_hyphen [of n rs "group_terms rs (m # ns) @ [Eol]" b s] by simp
  have IH: "(ends (seq (group_terms rs (m # ns) @ [Eol])) (False, drop (Suc n) s) \<noteq> []) =
     hyphenated (in_class rs) (m # ns) (drop (Suc n) s)"
    using 3 by blast
  have "(ends (seq (group_terms rs (n # m # ns) @ [Eol])) (b, s) \<noteq> []) =
     (n < length s \<and> list_all (in_class rs) (take n s) \<and> s ! n = CHR ''-'' \<and>
      ends (seq (group_terms rs (m # ns) @ [Eol])) (False, drop (Suc n) s) \<noteq> [])"
    by (subst H) (simp only: if_nonempty conj_assoc)
  also have "\<dots> = hyphenated (in_class rs) (n # m # ns) s"
    by (simp only: IH hyphenated.simps)
  finally show ?case .
qed

lemma hyphenated_guid_length: "hyphenated P [8, 4, 4, 4, 12] s \<Longrightarrow> length s = 36"
  by auto

lemma alphanumeric_in_class:
  "alphanumeric = in_class [(CHR ''0'', CHR ''9''), (CHR ''a'', CHR ''z''), (CHR ''A'', CHR ''Z'')]"
  by (rule ext) (simp add: alphanumeric_def)

lemma guid_regex_groups:
  "guid_regex =
     seq [Bol, NegLookahead (word zero_guid),
          seq (group_terms [(CHR ''0'', CHR ''9''), (CHR ''a'', CHR ''z''), (CHR ''A'', CHR ''Z'')]
                 [8, 4, 4, 4, 12]),
          Eol]"
  by (simp add: guid_regex_def alnum_class_def)

lemma length_zero_guid: "length zero_guid = 36"
  by (simp add: zero_guid_def)

lemma guid_regex_test:
  "regex_test guid_regex s \<longleftrightarrow> hyphenated alphanumeric [8, 4, 4, 4, 12] s \<and> s \<noteq> zero_guid"
proof -
  let ?rs = "[(CHR ''0'', CHR ''9''), (CHR ''a'', CHR ''z''), (CHR ''A'', CHR ''Z'')]"
  have "regex_test guid_regex s \<longleftrightarrow>
      ends (word zero_guid) (True, s) = [] \<and>
      ends (seq (group_terms ?rs [8, 4, 4, 4, 12] @ [Eol])) (True, s) \<noteq> []"
    unfolding guid_regex_groups regex_test_Bol ends_seq_NegLookahead ends_seq_nested
    by simp
  also have "\<dots> \<longleftrightarrow> \<not> (36 \<le> length s \<and> take 36 s = zero_guid) \<and>
      hyphenated alphanumeric [8, 4, 4, 4, 12] s"
    unfolding alphanumeric_in_class
    by (subst ends_groups_Eol) (simp_all add: ends_word length_zero_guid)
  also have "\<dots> \<longleftrightarrow> hyphenated alphanumeric [8, 4, 4, 4, 12] s \<and> s \<noteq> zero_guid"
    using hyphenated_guid_length [of alphanumeric s] by auto
  finally show ?thesis .
qed

lemma hex_digit_alphanumeric: "hex_digit c \<Longrightarrow> alphanumeric c"
  by (auto simp: hex_digit_def alphanumeric_def in_class_def)

lemma hyphenated_mono:
  "(\<And>c. P c \<Longrightarrow> Q c) \<Longrightarrow> hyphenated P ns s \<Longrightarrow> hyphenated Q ns s"
  by (induction P ns s rule: hyphenated.induct) (auto simp: list_all_iff)

subsection \<open>The GUID pattern\<close>

text \<open>
  Claim C9, as stated, fails: the groups of the pattern are of the class \<open>[0-9a-zA-Z]\<close>,
  not of hexadecimal digits. The pattern matches a string of five groups of the letter
  \<open>z\<close>, which is not a GUID.
\<close>

theorem getRegexGUID_matches_counterexample:
  "matches_pattern getRegexGUID ''zzzzzzzz-zzzz-zzzz-zzzz-zzzzzzzzzzzz'' \<and>
   \<not> hyphenated hex_digit [8, 4, 4, 4, 12] ''zzzzzzzz-zzzz-zzzz-zzzz-zzzzzzzzzzzz''"
  by code_simp

text \<open>
  Claim C9, amended. The pattern string of \<open>getRegexGUID\<close>, read as a regex, matches
  exactly the strings of five hyphen-separated groups of characters of \<open>[0-9a-zA-Z]\<close>
  with the lengths 8-4-4-4-12, except the all-zero GUID. So it matches every canonical
  GUID of hexadecimal digits but the all-zero one.
\<close>

theorem getRegexGUID_matches:
  "(matches_pattern getRegexGUID s \<longleftrightarrow>
      hyphenated alphanumeric [8, 4, 4, 4, 12] s \<and> s \<noteq> zero_guid) \<and>
   (hyphenated hex_digit [8, 4, 4, 4, 12] s \<and> s \<noteq> zero_guid \<longrightarrow>
      matches_pattern getRegexGUID s)"
  using hyphenated_mono [of hex_digit alphanumeric "[8, 4, 4, 4, 12]" s, OF hex_digit_alphanumeric]
  by (simp add: matches_pattern_def parse_GUID guid_regex_test)

theorem getRegexGUID_matches_witness:
  "hyphenated hex_digit [8, 4, 4, 4, 12] ''123e4567-e89b-12d3-a456-426614174000'' \<and>
   matches_pattern getRegexGUID ''123e4567-e89b-12d3-a456-426614174000'' \<and>
   \<not> matches_pattern getRegexGUID ''00000000-0000-0000-0000-000000000000''"
  using getRegexGUID_matches [of "''123e4567-e89b-12d3-a456-426614174000''"]
    getRegexGUID_matches [of "''00000000-0000-0000-0000-000000000000''"]
  by (simp add: hex_digit_def alphanumeric_def in_class_def zero_guid_def)

subsection \<open>The URL patterns\<close>

lemma after_prefix_Nil [simp]: "after_prefix [] s = Some s"
  by (simp add: after_prefix_def)

lemma after_prefix_Cons_Nil [simp]: "after_prefix (c # w) [] = None"
  by (simp add: after_prefix_def)

lemma after_prefix_Cons_Cons [simp]:
  "after_prefix (c # w) (x # xs) = (if x = c then after_prefix w xs else None)"
  by (auto simp: after_prefix_def)

lemma after_prefix_append:
  "after_prefix (u @ v) s = (case after_prefix u s of None \<Rightarrow> None | Some t \<Rightarrow> after_prefix v t)"
proof (induction u arbitrary: s)
  case Nil
  then show ?case by simp
next
  case (Cons c u)
  then show ?case by (cases s) simp_all
qed

lemma ends_seq_Chr:
  "ends (seq (Chr c # ts)) (b, s) =
     (case after_prefix [c] s of None \<Rightarrow> [] | Some t \<Rightarrow> ends (seq ts) (False, t))"
  by (cases s) (simp_all add: ends_seq_Cons)

lemma ends_seq_Opt_Chr:
  "ends (seq (Opt (Chr c) # ts)) (b, s) =
     (case after_prefix [c] s of None \<Rightarrow> [] | Some t \<Rightarrow> ends (seq ts) (False, t)) @
     ends (seq ts) (b, s)"
  by (cases s) (simp_all add: ends_seq_Cons)

lemma ends_seq_word:
  "w \<noteq> [] \<Longrightarrow> ends (seq (map Chr w @ ts)) (b, s) =
     (case after_prefix w s of None \<Rightarrow> [] | Some t \<Rightarrow> ends (seq ts) (False, t))"
proof (induction w arbitrary: b s)
  case Nil
  then show ?case by simp
next
  case (Cons c w)
  show ?case
  proof (cases "w = []")
    case True
    then show ?thesis by (cases s) (simp_all add: ends_seq_Cons)
  next
    case False
    with Cons.IH have IH: "\<And>b s. ends (seq (map Chr w @ ts)) (b, s) =
       (case after_prefix w s of None \<Rightarrow> [] | Some t \<Rightarrow> ends (seq ts) (False, t))"
      by blast
    show ?thesis by (cases s) (simp_all add: IH ends_seq_Cons)
  qed
qed

lemma scheme_terms_words:
  "scheme_terms = map Chr ''http'' @ Opt (Chr CHR ''s'') # map Chr ''://''"
  by (simp add: scheme_terms_def)

lemma after_scheme_cases:
  "after_scheme s = Some t \<longleftrightarrow>
     (\<exists>u. after_prefix ''http'' s = Some u \<and>
          (after_prefix ''://'' u = Some t \<or> after_prefix ''s://'' u = Some t))"
proof -
  have 1: "after_prefix ''http://'' s =
      (case after_prefix ''http'' s of None \<Rightarrow> None | Some u \<Rightarrow> after_prefix ''://'' u)"
    using after_prefix_append [of "''http''" "''://''" s] by simp
  have 2: "after_prefix ''https://'' s =
      (case after_prefix ''http'' s of None \<Rightarrow> None | Some u \<Rightarrow> after_prefix ''s://'' u)"
    using after_prefix_append [of "''http''" "''s://''" s] by simp
  have 3: "\<And>u x y. after_prefix ''://'' u = Some x \<Longrightarrow> after_prefix ''s://'' u = Some y \<Longrightarrow> False"
    by (case_tac u) (simp_all split: if_splits)
  show ?thesis
    unfolding after_scheme_def 1 2
    by (cases "after_prefix ''http'' s") (auto split: option.splits dest: 3)
qed

lemma ends_scheme:
  "ends (seq (scheme_terms @ ts)) (b, s) \<noteq> [] \<longleftrightarrow>
     (\<exists>t. after_scheme s = Some t \<and> ends (seq ts) (False, t) \<noteq> [])"
proof -
  let ?tail = "Opt (Chr CHR ''s'') # Chr CHR '':'' # Chr CHR ''/'' # Chr CHR ''/'' # ts"
  have A: "ends (seq (scheme_terms @ ts)) (b, s) =
      (case after_prefix ''http'' s of None \<Rightarrow> [] | Some u \<Rightarrow> ends (seq ?tail) (False, u))"
    unfolding scheme_terms_words
    using ends_seq_word [of "''http''" ?tail b s]
    by simp
  have w: "\<And>b v. ends (seq (Chr CHR '':'' # Chr CHR ''/'' # Chr CHR ''/'' # ts)) (b, v) =
      (case after_prefix ''://'' v of None \<Rightarrow> [] | Some t \<Rightarrow> ends (seq ts) (False, t))"
    using ends_seq_word [of "''://''" ts] by simp
  have s: "\<And>u. after_prefix ''s://'' u =
      (case after_prefix ''s'' u of None \<Rightarrow> None | Some v \<Rightarrow> after_prefix ''://'' v)"
    using after_prefix_append [of "''s''" "''://''"] by simp
  have B: "\<And>u. ends (seq ?tail) (False, u) =
      (case after_prefix ''s://'' u of None \<Rightarrow> [] | Some t \<Rightarrow> ends (seq ts) (False, t)) @
      (case after_prefix ''://'' u of None \<Rightarrow> [] | Some t \<Rightarrow> ends (seq ts) (False, t))"
    unfolding ends_seq_Opt_Chr w s
    by (simp split: option.splits)
  show ?thesis
  proof (cases "after_prefix ''http'' s")
    case None
    then show ?thesis
      by (simp add: A after_scheme_cases)
  next
    case (Some u)
    then show ?thesis
      by (simp only: A after_scheme_cases B option.case) (auto split: option.splits)
  qed
qed

lemma ends_nonempty_Cons:
  "ends (seq (t # ts)) p \<noteq> [] \<longleftrightarrow> (\<exists>q\<in>set (ends t p). ends (seq ts) q \<noteq> [])"
  by (auto simp: ends_seq_Cons)

lemma ends_Star_Class_Nil: "ends (Star (Class rs)) (b, []) = [(b, [])]"
  by (subst ends.simps(11)) simp

lemma ends_Star_Class_Cons:
  "ends (Star (Class rs)) (b, c # cs) =
     (if in_class rs c then ends (Star (Class rs)) (False, cs) else []) @ [(b, c # cs)]"
  by (subst ends.simps(11)) (simp add: shorter_def)

lemma ends_Star_Class_set:
  "set (ends (Star (Class rs)) (b, s)) =
     {(b \<and> k = 0, drop k s) | k. k \<le> length (takeWhile (in_class rs) s)}"
proof (induction s arbitrary: b)
  case Nil
  show ?case by (simp only: ends_Star_Class_Nil) auto
next
  case (Cons c cs)
  show ?case
  proof (cases "in_class rs c")
    case False
    then show ?thesis by (simp only: ends_Star_Class_Cons) auto
  next
    case True
    have "set (ends (Star (Class rs)) (b, c # cs)) =
        insert (b, c # cs) (set (ends (Star (Class rs)) (False, cs)))"
      using True by (simp add: ends_Star_Class_Cons)
    also have "\<dots> =
        insert (b, c # cs) {(False, drop k cs) | k. k \<le> length (takeWhile (in_class rs) cs)}"
      by (simp add: Cons.IH)
    also have "\<dots> = {(b \<and> k = 0, drop k (c # cs)) | k. k \<le> length (takeWhile (in_class rs) (c # cs))}"
    proof (intro set_eqI iffI)
      fix q
      assume "q \<in> insert (b, c # cs) {(False, drop k cs) | k. k \<le> length (takeWhile (in_class rs) cs)}"
      then consider "q = (b, c # cs)"
        | k where "q = (False, drop k cs)" "k \<le> length (takeWhile (in_class rs) cs)"
        by auto
      then show "q \<in> {(b \<and> k = 0, drop k (c # cs)) | k. k \<le> length (takeWhile (in_class rs) (c # cs))}"
      proof cases
        case 1
        then show ?thesis by (auto intro: exI [of _ 0])
      next
        case 2
        with True show ?thesis by (auto intro!: exI [of _ "Suc k"])
      qed
    next
      fix q
      assume "q \<in> {(b \<and> k = 0, drop k (c # cs)) | k. k \<le> length (takeWhile (in_class rs) (c # cs))}"
      then obtain k where k: "q = (b \<and> k = 0, drop k (c # cs))"
        "k \<le> length (takeWhile (in_class rs) (c # cs))" by auto
      show "q \<in> insert (b, c # cs) {(False, drop k cs) | k. k \<le> length (takeWhile (in_class rs) cs)}"
      proof (cases k)
        case 0
        with k show ?thesis by simp
      next
        case (Suc j)
        with k True show ?thesis by auto
      qed
    qed
    finally show ?thesis .
  qed
qed

lemma ends_Plus_Class_set:
  "set (ends (Seq (Class rs) (Star (Class rs))) (b, s)) =
     {(False, drop k s) | k. 1 \<le> k \<and> k \<le> length (takeWhile (in_class rs) s)}"
proof (cases s)
  case Nil
  then show ?thesis by simp
next
  case (Cons c cs)
  show ?thesis
  proof (cases "in_class rs c")
    case False
    with Cons show ?thesis by simp
  next
    case True
    have "set (ends (Seq (Class rs) (Star (Class rs))) (b, s)) =
        {(False, drop k cs) | k. k \<le> length (takeWhile (in_class rs) cs)}"
      using True Cons by (simp add: ends_Star_Class_set)
    also have "\<dots> = {(False, drop k s) | k. 1 \<le> k \<and> k \<le> length (takeWhile (in_class rs) s)}"
    proof (intro set_eqI iffI)
      fix q
      assume "q \<in> {(False, drop k cs) | k. k \<le> length (takeWhile (in_class rs) cs)}"
      then obtain k where "q = (False, drop k cs)" "k \<le> length (takeWhile (in_class rs) cs)"
        by auto
      with True Cons show "q \<in> {(False, drop k s) | k. 1 \<le> k \<and> k \<le> length (takeWhile (in_class rs) s)}"
        by (auto intro!: exI [of _ "Suc k"])
    next
      fix q
      assume "q \<in> {(False, drop k s) | k. 1 \<le> k \<and> k \<le> length (takeWhile (in_class rs) s)}"
      then obtain k where k: "q = (False, drop k s)" "1 \<le> k"
        "k \<le> length (takeWhile (in_class rs) s)" by auto
      then obtain j where "k = Suc j" by (cases k) auto
      with k True Cons show "q \<in> {(False, drop k cs) | k. k \<le> length (takeWhile (in_class rs) cs)}"
        by auto
    qed
    finally show ?thesis .
  qed
qed

lemma ends_Plus_nonempty:
  "ends (seq (Seq (Class rs) (Star (Class rs)) # ts)) (b, s) \<noteq> [] \<longleftrightarrow>
     (\<exists>k. 1 \<le> k \<and> k \<le> length (takeWhile (in_class rs) s) \<and>
          ends (seq ts) (False, drop k s) \<noteq> [])"
  unfolding ends_nonempty_Cons ends_Plus_Class_set by auto

lemma host_char_in_class: "host_char = in_class host_ranges"
  by (rule ext) (simp add: host_char_def host_ranges_def)

lemma host_class_ranges: "host_class = Class host_ranges"
  by (simp add: host_class_def host_ranges_def)

lemma dot_not_host_char: "\<not> host_char CHR ''.''"
  by (simp add: host_char_def in_class_def)

lemma takeWhile_run_holds:
  "k < length (takeWhile P xs) \<Longrightarrow> k < length xs \<and> P (xs ! k)"
proof -
  assume k: "k < length (takeWhile P xs)"
  then have "takeWhile P xs ! k \<in> set (takeWhile P xs)" by simp
  then have "P (takeWhile P xs ! k)" by (rule set_takeWhileD [THEN conjunct2])
  moreover have "takeWhile P xs ! k = xs ! k" using k by (rule takeWhile_nth)
  moreover have "length (takeWhile P xs) \<le> length xs" by (rule length_takeWhile_le)
  ultimately show ?thesis using k by simp
qed

lemma host_start_in_run:
  "k < length (takeWhile host_char xs) \<Longrightarrow> host_start (drop k xs) \<and> \<not> dot_then_host (drop k xs)"
proof -
  assume "k < length (takeWhile host_char xs)"
  then have k: "k < length xs" "host_char (xs ! k)" using takeWhile_run_holds by blast+
  then have d: "drop k xs = xs ! k # drop (Suc k) xs" by (simp add: Cons_nth_drop_Suc)
  show ?thesis
    using k dot_not_host_char by (auto simp: d host_start_def dot_then_host_def)
qed

lemma host_start_at_run_end: "\<not> host_start (drop (length (takeWhile host_char xs)) xs)"
proof (cases "length (takeWhile host_char xs) < length xs")
  case True
  then have "\<not> host_char (xs ! length (takeWhile host_char xs))"
    by (rule nth_length_takeWhile)
  with True show ?thesis by (simp add: host_start_def hd_drop_conv_nth)
next
  case False
  then show ?thesis by (simp add: host_start_def)
qed

lemma optional_dot_split:
  "(\<exists>k. 1 \<le> k \<and> k \<le> length (takeWhile host_char xs) \<and>
        (dot_then_host (drop k xs) \<or> host_start (drop k xs))) \<longleftrightarrow>
   2 \<le> length (takeWhile host_char xs) \<or>
   (1 \<le> length (takeWhile host_char xs) \<and> dot_then_host (drop (length (takeWhile host_char xs)) xs))"
  (is "?L \<longleftrightarrow> ?R")
proof
  assume ?L
  then obtain k where k: "1 \<le> k" "k \<le> length (takeWhile host_char xs)"
    "dot_then_host (drop k xs) \<or> host_start (drop k xs)" by blast
  show ?R
  proof (cases "k < length (takeWhile host_char xs)")
    case True
    with k show ?thesis by simp
  next
    case False
    with k have "k = length (takeWhile host_char xs)" by simp
    with k host_start_at_run_end [of xs] show ?thesis by auto
  qed
next
  assume ?R
  then show ?L
  proof
    assume "2 \<le> length (takeWhile host_char xs)"
    then have "1 < length (takeWhile host_char xs)" by simp
    from host_start_in_run [OF this] this show ?L by (intro exI [of _ 1]) simp
  next
    assume "1 \<le> length (takeWhile host_char xs) \<and>
      dot_then_host (drop (length (takeWhile host_char xs)) xs)"
    then show ?L by blast
  qed
qed

lemma dotted_split:
  "(\<exists>k. 1 \<le> k \<and> k \<le> length (takeWhile host_char xs) \<and> dot_then_host (drop k xs)) \<longleftrightarrow>
   1 \<le> length (takeWhile host_char xs) \<and> dot_then_host (drop (length (takeWhile host_char xs)) xs)"
  (is "?L \<longleftrightarrow> ?R")
proof
  assume ?L
  then obtain k where k: "1 \<le> k" "k \<le> length (takeWhile host_char xs)"
    "dot_then_host (drop k xs)" by blast
  have "\<not> k < length (takeWhile host_char xs)"
    using host_start_in_run [of k xs] k by blast
  with k have "k = length (takeWhile host_char xs)" by simp
  with k show ?R by simp
next
  assume ?R
  then show ?L by blast
qed

lemma host_start_takeWhile: "host_start t \<longleftrightarrow> 1 \<le> length (takeWhile host_char t)"
  by (cases t) (simp_all add: host_start_def)

lemma ends_plus_only:
  "ends (seq [Seq host_class (Star host_class)]) (b, t) \<noteq> [] \<longleftrightarrow> host_start t"
  unfolding host_class_ranges ends_Plus_nonempty host_start_takeWhile host_char_in_class
  by auto

lemma ends_dot_plus:
  "ends (seq [Chr CHR ''.'', Seq host_class (Star host_class)]) (b, t) \<noteq> [] \<longleftrightarrow> dot_then_host t"
  unfolding ends_seq_Chr dot_then_host_def
  by (cases "after_prefix ''.'' t") (simp_all add: ends_plus_only)

lemma ends_optional_dot_plus:
  "ends (seq [Opt (Chr CHR ''.''), Seq host_class (Star host_class)]) (b, t) \<noteq> [] \<longleftrightarrow>
     dot_then_host t \<or> host_start t"
  unfolding ends_seq_Opt_Chr dot_then_host_def
  by (cases "after_prefix ''.'' t") (simp_all add: ends_plus_only)

lemma url_regex_loose_test: "regex_test url_regex_loose s \<longleftrightarrow> optional_dot_url s"
proof -
  let ?ts = "[Seq host_class (Star host_class), Opt (Chr CHR ''.''),
              Seq host_class (Star host_class)]"
  have "regex_test url_regex_loose s \<longleftrightarrow> ends (seq (scheme_terms @ ?ts)) (True, s) \<noteq> []"
    unfolding url_regex_loose_def by (rule regex_test_Bol)
  also have "\<dots> \<longleftrightarrow> (\<exists>t. after_scheme s = Some t \<and> ends (seq ?ts) (False, t) \<noteq> [])"
    by (rule ends_scheme)
  also have "\<dots> \<longleftrightarrow> optional_dot_url s"
    unfolding optional_dot_url_def Let_def optional_dot_split [symmetric]
    by (cases "after_scheme s")
       (simp_all add: host_class_ranges ends_Plus_nonempty host_char_in_class
          ends_optional_dot_plus [unfolded host_class_ranges])
  finally show ?thesis .
qed

lemma regex_test_Alt: "regex_test (Alt r1 r2) s \<longleftrightarrow> regex_test r1 s \<or> regex_test r2 s"
  by (auto simp: regex_test_def list_ex_iff)

lemma url_regex_dotted_test:
  "regex_test (seq (Bol # scheme_terms @
      [Seq host_class (Star host_class), Chr CHR ''.'', Seq host_class (Star host_class)])) s
   \<longleftrightarrow> dotted_url s"
proof -
  let ?ts = "[Seq host_class (Star host_class), Chr CHR ''.'', Seq host_class (Star host_class)]"
  have "regex_test (seq (Bol # scheme_terms @ ?ts)) s \<longleftrightarrow>
      ends (seq (scheme_terms @ ?ts)) (True, s) \<noteq> []"
    by (rule regex_test_Bol)
  also have "\<dots> \<longleftrightarrow> (\<exists>t. after_scheme s = Some t \<and> ends (seq ?ts) (False, t) \<noteq> [])"
    by (rule ends_scheme)
  also have "\<dots> \<longleftrightarrow> dotted_url s"
    unfolding dotted_url_def Let_def dotted_split [symmetric]
    by (cases "after_scheme s")
       (simp_all add: host_class_ranges ends_Plus_nonempty host_char_in_class
          ends_dot_plus [unfolded host_class_ranges])
  finally show ?thesis .
qed

lemma ends_localhost:
  "ends (seq (scheme_terms @ map Chr ''localhost'')) (b, u) \<noteq> [] \<longleftrightarrow> localhost_url u"
proof -
  have w: "\<And>t. ends (seq (map Chr ''localhost'')) (False, t) \<noteq> [] \<longleftrightarrow>
      after_prefix ''localhost'' t \<noteq> None"
    using ends_seq_word [of "''localhost''" "[]" False]
    by (simp split: option.splits)
  show ?thesis
    unfolding ends_scheme localhost_url_def
    by (cases "after_scheme u") (simp_all add: w [simplified])
qed

lemma take_is_prefix: "take (length w) u = w \<longleftrightarrow> after_prefix w u \<noteq> None"
  by (auto simp: after_prefix_def)

lemma scheme_exclusive:
  "after_prefix ''http://'' u = Some x \<Longrightarrow> after_prefix ''https://'' u = None"
proof -
  assume x: "after_prefix ''http://'' u = Some x"
  have 1: "after_prefix ''http://'' u =
      (case after_prefix ''http'' u of None \<Rightarrow> None | Some v \<Rightarrow> after_prefix ''://'' v)"
    using after_prefix_append [of "''http''" "''://''" u] by simp
  have 2: "after_prefix ''https://'' u =
      (case after_prefix ''http'' u of None \<Rightarrow> None | Some v \<Rightarrow> after_prefix ''s://'' v)"
    using after_prefix_append [of "''http''" "''s://''" u] by simp
  have 3: "\<And>v y. after_prefix ''://'' v = Some y \<Longrightarrow> after_prefix ''s://'' v = None"
    by (case_tac v) (simp_all split: if_splits)
  from x obtain v where v: "after_prefix ''http'' u = Some v" "after_prefix ''://'' v = Some x"
    unfolding 1 by (cases "after_prefix ''http'' u") simp_all
  show ?thesis
    unfolding 2 using v 3 by simp
qed

lemma localhost_url_prefix:
  "localhost_url u \<longleftrightarrow>
     after_prefix ''http://localhost'' u \<noteq> None \<or> after_prefix ''https://localhost'' u \<noteq> None"
proof -
  have 1: "after_prefix ''http://localhost'' u =
      (case after_prefix ''http://'' u of None \<Rightarrow> None | Some t \<Rightarrow> after_prefix ''localhost'' t)"
    using after_prefix_append [of "''http://''" "''localhost''" u] by simp
  have 2: "after_prefix ''https://localhost'' u =
      (case after_prefix ''https://'' u of None \<Rightarrow> None | Some t \<Rightarrow> after_prefix ''localhost'' t)"
    using after_prefix_append [of "''https://''" "''localhost''" u] by simp
  show ?thesis
  proof (cases "after_prefix ''http://'' u")
    case None
    then show ?thesis
      unfolding localhost_url_def after_scheme_def 1 2
      by (cases "after_prefix ''https://'' u") simp_all
  next
    case (Some x)
    then show ?thesis
      unfolding localhost_url_def after_scheme_def 1 2
      by (simp add: scheme_exclusive [OF Some])
  qed
qed

lemma url_regex_localhost_test:
  "regex_test (seq (scheme_terms @ map Chr ''localhost'')) s \<longleftrightarrow>
     str_includes s ''http://localhost'' \<or> str_includes s ''https://localhost''"
proof -
  have "regex_test (seq (scheme_terms @ map Chr ''localhost'')) s \<longleftrightarrow>
      (\<exists>k\<in>set [0..<Suc (length s)]. localhost_url (drop k s))"
    by (simp only: regex_test_def list_ex_iff ends_localhost)
  also have "\<dots> \<longleftrightarrow> str_includes s ''http://localhost'' \<or> str_includes s ''https://localhost''"
    unfolding str_includes_def list_ex_iff localhost_url_prefix take_is_prefix
    by blast
  finally show ?thesis .
qed

lemma url_regex_strict_test:
  "regex_test url_regex_strict s \<longleftrightarrow>
     dotted_url s \<or> str_includes s ''http://localhost'' \<or> str_includes s ''https://localhost''"
  unfolding url_regex_strict_def regex_test_Alt url_regex_dotted_test url_regex_localhost_test
  by simp

lemma str_includes_prefix: "after_prefix w s \<noteq> None \<Longrightarrow> str_includes s w"
  unfolding str_includes_def list_ex_iff take_is_prefix
  by (rule bexI [of _ 0]) simp_all

lemma localhost_url_includes:
  "localhost_url s \<Longrightarrow> str_includes s ''http://localhost'' \<or> str_includes s ''https://localhost''"
  unfolding localhost_url_prefix
  using str_includes_prefix [of "''http://localhost''" s]
    str_includes_prefix [of "''https://localhost''" s]
  by blast

lemma url_shape_examples:
  "optional_dot_url ''http://a.b''"
  "\<not> optional_dot_url ''http://a''"
  "dotted_url ''https://example.com/x''"
  "localhost_url ''http://localhost:8080''"
  "\<not> dotted_url ''http://ab''"
  "\<not> str_includes ''http://ab'' ''http://localhost''"
  "\<not> str_includes ''http://ab'' ''https://localhost''"
  by code_simp+

text \<open>
  The second alternative of the pattern of part_000 is outside the \<open>^\<close> of the first:
  the pattern also matches a string that has \<open>http://localhost\<close> anywhere in it.
\<close>

lemma getRegexURL_strict_localhost_anywhere:
  "matches_pattern getRegexURL_strict ''see http://localhost''"
  by code_simp

text \<open>
  Claim C10, as stated, fails for the pattern of src/Commontests.js, whose dot is
  optional: it matches \<open>http://ab\<close>, which has no dot and is not \<open>localhost\<close>.
\<close>

theorem getRegexURL_matches_counterexample:
  "matches_pattern getRegexURL_loose ''http://ab'' \<and>
   CHR ''.'' \<notin> set ''http://ab'' \<and>
   \<not> dotted_url ''http://ab'' \<and> \<not> localhost_url ''http://ab''"
  by code_simp

text \<open>
  Claim C10, amended. A string matches the pattern of src/Commontests.js if and only if
  it begins with \<open>http://\<close> or \<open>https://\<close> followed by one or more characters of
  \<open>[0-9a-zA-Z-]\<close>, an optional dot and one or more characters of \<open>[0-9a-zA-Z-]\<close>. A
  string matches the pattern of part_000 if it begins with \<open>http://\<close> or \<open>https://\<close>
  followed by one or more characters of \<open>[0-9a-zA-Z-]\<close>, a dot and one or more characters
  of \<open>[0-9a-zA-Z-]\<close>, or followed by \<open>localhost\<close>; and a string that matches it begins so
  with a dotted host, or has \<open>http://localhost\<close> or \<open>https://localhost\<close> in it.
\<close>

theorem getRegexURL_matches:
  "(matches_pattern getRegexURL_loose s \<longleftrightarrow> optional_dot_url s) \<and>
   (dotted_url s \<or> localhost_url s \<longrightarrow> matches_pattern getRegexURL_strict s) \<and>
   (matches_pattern getRegexURL_strict s \<longrightarrow>
      dotted_url s \<or> str_includes s ''http://localhost'' \<or> str_includes s ''https://localhost'')"
  using localhost_url_includes [of s]
  by (auto simp: matches_pattern_def parse_URL_loose parse_URL_strict url_regex_loose_test
        url_regex_strict_test)

theorem getRegexURL_matches_witness:
  "matches_pattern getRegexURL_loose ''http://a.b'' \<and>
   \<not> matches_pattern getRegexURL_loose ''http://a'' \<and>
   matches_pattern getRegexURL_strict ''https://example.com/x'' \<and>
   matches_pattern getRegexURL_strict ''http://localhost:8080'' \<and>
   \<not> matches_pattern getRegexURL_strict ''http://ab''"
  using getRegexURL_matches [of "''http://a.b''"] getRegexURL_matches [of "''http://a''"]
    getRegexURL_matches [of "''https://example.com/x''"]
    getRegexURL_matches [of "''http://localhost:8080''"]
    getRegexURL_matches [of "''http://ab''"]
    url_shape_examples
  by blast

end
